theory Spec2Isabelle
  imports Main
begin

section \<open>Python values used by the scripts\<close>

text \<open>
  The three scripts (\<^verbatim>\<open>src/pdf_to_word.py\<close>, \<^verbatim>\<open>src/functions/pdf_to_word.py\<close>,
  \<^verbatim>\<open>src/functions/word_to_pdf.py\<close>) are straight-line code around calls into the
  operating system, a subprocess and the \<^verbatim>\<open>pdf2docx\<close> library. Paths are Python
  strings, modelled as \<^typ>\<open>string\<close>.
\<close>

subsection \<open>Exceptions\<close>

text \<open>
  The handlers of the scripts are all \<^verbatim>\<open>except Exception as e\<close>. Python's hierarchy
  puts \<^verbatim>\<open>KeyboardInterrupt\<close> directly under \<^verbatim>\<open>BaseException\<close>, outside
  \<^verbatim>\<open>Exception\<close>; \<^verbatim>\<open>OSError\<close>, \<^verbatim>\<open>FileNotFoundError\<close> (under \<^verbatim>\<open>OSError\<close>),
  \<^verbatim>\<open>AttributeError\<close>, \<^verbatim>\<open>ValueError\<close> and \<^verbatim>\<open>subprocess.SubprocessError\<close> are
  subclasses of \<^verbatim>\<open>Exception\<close>, and \<^verbatim>\<open>subprocess.TimeoutExpired\<close> is a subclass of
  \<^verbatim>\<open>SubprocessError\<close>.
\<close>

datatype exc_class =
    KeyboardInterrupt
  | Exception
  | OSError
  | FileNotFoundError
  | AttributeError
  | ValueError
  | SubprocessError
  | TimeoutExpired

fun is_Exception :: "exc_class \<Rightarrow> bool" where
  "is_Exception KeyboardInterrupt = False"
| "is_Exception Exception = True"
| "is_Exception OSError = True"
| "is_Exception FileNotFoundError = True"
| "is_Exception AttributeError = True"
| "is_Exception ValueError = True"
| "is_Exception SubprocessError = True"
| "is_Exception TimeoutExpired = True"

text \<open>An exception object: its class and the text \<^verbatim>\<open>str(e)\<close>.\<close>

datatype pyexc = PyExc exc_class string

fun exc_class_of :: "pyexc \<Rightarrow> exc_class" where
  "exc_class_of (PyExc c m) = c"

fun str_exc :: "pyexc \<Rightarrow> string" where
  "str_exc (PyExc c m) = m"

text \<open>
  How a function call or a script ends: it returns, it raises \<^verbatim>\<open>SystemExit\<close> through
  \<^verbatim>\<open>sys.exit(code)\<close>, or an exception that no handler caught leaves it.
\<close>

datatype 'a result = Return 'a | SystemExit int | Propagate pyexc

text \<open>
  The exit status of the process: a script that runs to its end exits with 0,
  \<^verbatim>\<open>sys.exit(n)\<close> exits with \<open>n\<close>; an uncaught exception is a crash with a traceback,
  kept apart from the two clean ways out.
\<close>

fun exit_code :: "'a result \<Rightarrow> int option" where
  "exit_code (Return v) = Some 0"
| "exit_code (SystemExit n) = Some n"
| "exit_code (Propagate e) = None"

subsection \<open>Strings and paths\<close>

text \<open>
  \<^verbatim>\<open>str(n)\<close> for an integer, used by the f-strings that print a page number.
\<close>

definition digit_char :: "nat \<Rightarrow> char" where
  "digit_char d = ''0123456789'' ! d"

fun str_nat :: "nat \<Rightarrow> string" where
  "str_nat n = (if n < 10 then [digit_char n] else str_nat (n div 10) @ [digit_char (n mod 10)])"

declare str_nat.simps [simp del]

definition str_int :: "int \<Rightarrow> string" where
  "str_int i = (if i < 0 then CHR ''-'' # str_nat (nat (- i)) else str_nat (nat i))"

text \<open>
  \<^verbatim>\<open>s.replace(old, new)\<close>: every occurrence of \<open>old\<close>, found from the left and not
  overlapping, becomes \<open>new\<close>. The scripts call it with \<open>old = '.docx'\<close>; the model takes
  a non-empty \<open>old\<close> (with an empty one it leaves the string as it is, which Python does not).
\<close>

function str_replace :: "string \<Rightarrow> string \<Rightarrow> string \<Rightarrow> string" where
  "str_replace old new [] = []"
| "str_replace old new (c # cs) =
     (if old \<noteq> [] \<and> take (length old) (c # cs) = old
      then new @ str_replace old new (drop (length old) (c # cs))
      else c # str_replace old new cs)"
  by pat_completeness auto
termination
  by (relation "measure (\<lambda>(old, new, s). length s)") auto

text \<open>
  \<^verbatim>\<open>os.path\<close> on a POSIX host (the executable's path is a POSIX one), as
  \<^verbatim>\<open>posixpath.py\<close> writes them. With \<open>i = p.rfind('/') + 1\<close>:
  \<^verbatim>\<open>basename(p) = p[i:]\<close>, the part after the last slash;
  \<^verbatim>\<open>dirname(p)\<close> is \<open>head = p[:i]\<close>, the part up to and including the last slash, with
  its trailing slashes stripped unless \<open>head\<close> is empty or slashes only;
  \<^verbatim>\<open>join(a, b)\<close> is \<open>b\<close> when \<open>b\<close> starts with a slash, \<open>a + b\<close> when \<open>a\<close> is empty
  or ends with a slash, and \<open>a + '/' + b\<close> otherwise.
\<close>

definition sep :: char where
  "sep = CHR ''/''"

definition basename :: "string \<Rightarrow> string" where
  "basename p = rev (takeWhile (\<lambda>c. c \<noteq> sep) (rev p))"

definition dirname :: "string \<Rightarrow> string" where
  "dirname p =
     (let head = rev (dropWhile (\<lambda>c. c \<noteq> sep) (rev p))
      in if head \<noteq> [] \<and> head \<noteq> replicate (length head) sep
         then rev (dropWhile (\<lambda>c. c = sep) (rev head))
         else head)"

definition join :: "string \<Rightarrow> string \<Rightarrow> string" where
  "join a b =
     (if b \<noteq> [] \<and> hd b = sep then b
      else if a = [] \<or> last a = sep then a @ b
      else a @ [sep] @ b)"

section \<open>The world outside the scripts\<close>

text \<open>
  What the scripts can observe of a run is the sequence of calls they make and lines they
  print. The log below records them in order; \<open>Raised\<close> follows the call (or the
  \<^verbatim>\<open>raise\<close> statement) that raised.
\<close>

datatype event =
    Stdout string
  | Stderr string
  | PathExists string
  | Makedirs string
  | Rename string string
  | SubprocessRun "string list" nat
  | ConverterNew string
  | GetPages
  | Convert string
  | Close
  | Raised pyexc

record 'w state =
  world :: 'w
  trace :: "event list"

definition init :: "'w \<Rightarrow> 'w state" where
  "init w = \<lparr>world = w, trace = []\<rparr>"

text \<open>The object \<^verbatim>\<open>subprocess.run\<close> returns (with \<^verbatim>\<open>capture_output\<close> and \<^verbatim>\<open>text\<close>).\<close>

record completed_process =
  returncode :: int
  stdout :: string
  stderr :: string

text \<open>
  The file system, the subprocess and the library are not code of the repository: they are
  parameters. \<open>'w\<close> is the state of the world (the file system), \<open>'c\<close> the library's
  converter object. A call takes the world and gives back what it returned or raised and
  the world it left. \<^verbatim>\<open>os.path.exists\<close> only reads and never raises.
\<close>

record ('w, 'c) env =
  os_path_exists :: "'w \<Rightarrow> string \<Rightarrow> bool"
  os_makedirs :: "'w \<Rightarrow> string \<Rightarrow> (pyexc + unit) \<times> 'w"
  os_rename :: "'w \<Rightarrow> string \<Rightarrow> string \<Rightarrow> (pyexc + unit) \<times> 'w"
  subprocess_run :: "'w \<Rightarrow> string list \<Rightarrow> nat \<Rightarrow> (pyexc + completed_process) \<times> 'w"
  Converter_new :: "'w \<Rightarrow> string \<Rightarrow> (pyexc + 'c) \<times> 'w"
  cv_get_pages :: "'w \<Rightarrow> 'c \<Rightarrow> (pyexc + int) \<times> 'w"
  cv_convert :: "'w \<Rightarrow> 'c \<Rightarrow> string \<Rightarrow> int \<Rightarrow> int option \<Rightarrow> (pyexc + unit) \<times> 'w"
  cv_close :: "'w \<Rightarrow> 'c \<Rightarrow> (pyexc + unit) \<times> 'w"

definition emit :: "event \<Rightarrow> 'w state \<Rightarrow> 'w state" where
  "emit ev s = s\<lparr>trace := trace s @ [ev]\<rparr>"

text \<open>A call into the world: logged, then its outcome and the world it left.\<close>

definition call :: "event \<Rightarrow> ('w \<Rightarrow> (pyexc + 'a) \<times> 'w) \<Rightarrow> 'w state \<Rightarrow> (pyexc + 'a) \<times> 'w state" where
  "call ev f s =
     (case f (world s) of
        (Inl e, w') \<Rightarrow> (Inl e, \<lparr>world = w', trace = trace s @ [ev, Raised e]\<rparr>)
      | (Inr v, w') \<Rightarrow> (Inr v, \<lparr>world = w', trace = trace s @ [ev]\<rparr>))"

definition exists_op :: "('w, 'c) env \<Rightarrow> string \<Rightarrow> 'w state \<Rightarrow> bool \<times> 'w state" where
  "exists_op env p s = (os_path_exists env (world s) p, emit (PathExists p) s)"

text \<open>The statement \<^verbatim>\<open>raise Exception(msg)\<close>.\<close>

definition raise_Exception :: "string \<Rightarrow> 'w state \<Rightarrow> (pyexc + 'a) \<times> 'w state" where
  "raise_Exception msg s = (Inl (PyExc Exception msg), emit (Raised (PyExc Exception msg)) s)"

text \<open>
  \<^verbatim>\<open>print\<close> writes a line to standard output, or to standard error with
  \<^verbatim>\<open>file=sys.stderr\<close>. \<^verbatim>\<open>logging\<close> is configured by \<^verbatim>\<open>src/pdf_to_word.py\<close> with
  the format \<^verbatim>\<open>[%(levelname)s] %(message)s\<close> and writes to standard error.
\<close>

definition print_out :: "string \<Rightarrow> 'w state \<Rightarrow> 'w state" where
  "print_out msg s = emit (Stdout msg) s"

definition print_err :: "string \<Rightarrow> 'w state \<Rightarrow> 'w state" where
  "print_err msg s = emit (Stderr msg) s"

definition logging_info :: "string \<Rightarrow> 'w state \<Rightarrow> 'w state" where
  "logging_info msg s = emit (Stderr (''[INFO] '' @ msg)) s"

definition logging_error :: "string \<Rightarrow> 'w state \<Rightarrow> 'w state" where
  "logging_error msg s = emit (Stderr (''[ERROR] '' @ msg)) s"

section \<open>\<^verbatim>\<open>src/functions/word_to_pdf.py\<close>\<close>

definition libreoffice_path :: string where
  "libreoffice_path = ''/usr/lib/libreoffice/program/soffice''"

text \<open>The list \<^verbatim>\<open>command\<close> of lines 13 to 19.\<close>

definition command :: "string \<Rightarrow> string \<Rightarrow> string list" where
  "command input_path output_path =
     [libreoffice_path, ''--headless'', ''--convert-to'', ''pdf'',
      ''--outdir'', dirname output_path, input_path]"

text \<open>The path \<^verbatim>\<open>generated_pdf\<close> of line 26.\<close>

definition generated_pdf :: "string \<Rightarrow> string \<Rightarrow> string" where
  "generated_pdf input_path output_path =
     join (dirname output_path) (str_replace ''.docx'' ''.pdf'' (basename input_path))"

text \<open>The body of the \<^verbatim>\<open>try\<close> block, lines 7 to 31.\<close>

definition convert_word_to_pdf_try ::
  "('w, 'c) env \<Rightarrow> string \<Rightarrow> string \<Rightarrow> 'w state \<Rightarrow> (pyexc + unit) \<times> 'w state" where
  "convert_word_to_pdf_try env input_path output_path s =
     (case exists_op env libreoffice_path s of (found, s1) \<Rightarrow>
        if \<not> found then raise_Exception ''LibreOffice not found'' s1
        else
          (case call (SubprocessRun (command input_path output_path) 240)
                  (\<lambda>w. subprocess_run env w (command input_path output_path) 240) s1 of
             (Inl e, s2) \<Rightarrow> (Inl e, s2)
           | (Inr result, s2) \<Rightarrow>
               if returncode result \<noteq> 0
               then raise_Exception (''LibreOffice failed: '' @ stderr result) s2
               else
                 (case exists_op env (generated_pdf input_path output_path) s2 of (created, s3) \<Rightarrow>
                    if \<not> created then raise_Exception ''Output PDF not created'' s3
                    else call (Rename (generated_pdf input_path output_path) output_path)
                           (\<lambda>w. os_rename env w (generated_pdf input_path output_path) output_path)
                           s3)))"

text \<open>
  The function with its handler, lines 33 to 35: an exception of class \<^verbatim>\<open>Exception\<close> is
  printed to standard error and the process exits with 1; any other leaves the function.
\<close>

definition convert_word_to_pdf ::
  "('w, 'c) env \<Rightarrow> string \<Rightarrow> string \<Rightarrow> 'w state \<Rightarrow> unit result \<times> 'w state" where
  "convert_word_to_pdf env input_path output_path s =
     (case convert_word_to_pdf_try env input_path output_path s of
        (Inr u, s') \<Rightarrow> (Return (), s')
      | (Inl e, s') \<Rightarrow>
          if is_Exception (exc_class_of e)
          then (SystemExit 1, print_err (''Error: '' @ str_exc e) s')
          else (Propagate e, s'))"

text \<open>The script, lines 37 to 44, on the argument vector \<^verbatim>\<open>sys.argv\<close>.\<close>

definition word_to_pdf_script ::
  "('w, 'c) env \<Rightarrow> string list \<Rightarrow> 'w state \<Rightarrow> unit result \<times> 'w state" where
  "word_to_pdf_script env argv s =
     (if length argv \<noteq> 3
      then (SystemExit 1, print_err ''Usage: python word_to_pdf.py <input_path> <output_path>'' s)
      else convert_word_to_pdf env (argv ! 1) (argv ! 2) s)"

section \<open>\<^verbatim>\<open>src/pdf_to_word.py\<close>\<close>

text \<open>
  Lines 41 to 64 of \<^verbatim>\<open>convert_pdf_to_word\<close>: the calls into the library
  (\<^verbatim>\<open>Converter(pdf_path)\<close>, \<^verbatim>\<open>get_pages()\<close>, \<^verbatim>\<open>convert(docx_path, start=0, end=None)\<close>,
  \<^verbatim>\<open>close()\<close>) and the check of the output file.
\<close>

definition conversion_steps ::
  "('w, 'c) env \<Rightarrow> string \<Rightarrow> string \<Rightarrow> 'w state \<Rightarrow> (pyexc + bool) \<times> 'w state" where
  "conversion_steps env pdf_path docx_path s =
     (let s1 = logging_info ''[1/4] Initializing conversion...'' s;
          s2 = logging_info (''Converting '' @ pdf_path @ '' to '' @ docx_path) s1
      in case call (ConverterNew pdf_path) (\<lambda>w. Converter_new env w pdf_path) s2 of
           (Inl e, s3) \<Rightarrow> (Inl e, s3)
         | (Inr cv, s3) \<Rightarrow>
             (case call GetPages (\<lambda>w. cv_get_pages env w cv) s3 of
                (Inl e, s4) \<Rightarrow> (Inl e, s4)
              | (Inr total_pages, s4) \<Rightarrow>
                  (let s5 = logging_info ''[2/4] Analyzing document structure...'' s4;
                       s6 = logging_info (''Document has '' @ str_int total_pages @ '' pages'') s5;
                       s7 = logging_info ''[3/4] Converting content...'' s6
                   in case call (Convert docx_path) (\<lambda>w. cv_convert env w cv docx_path 0 None) s7 of
                        (Inl e, s8) \<Rightarrow> (Inl e, s8)
                      | (Inr u, s8) \<Rightarrow>
                          (case call Close (\<lambda>w. cv_close env w cv) s8 of
                             (Inl e, s9) \<Rightarrow> (Inl e, s9)
                           | (Inr u', s9) \<Rightarrow>
                               (let s10 = logging_info ''[4/4] Finalizing document...'' s9
                                in case exists_op env docx_path s10 of (created, s11) \<Rightarrow>
                                     if created
                                     then (Inr True,
                                           logging_info (''Conversion completed successfully: '' @ docx_path) s11)
                                     else (Inr False,
                                           logging_error ''Conversion failed: Output file not created'' s11))))))"

text \<open>
  The body of the \<^verbatim>\<open>try\<close> block, lines 31 to 64. In
  \<^verbatim>\<open>if output_dir and not os.path.exists(output_dir)\<close> the second test runs only when
  \<^verbatim>\<open>output_dir\<close> is not empty.
\<close>

definition convert_pdf_to_word_try ::
  "('w, 'c) env \<Rightarrow> string \<Rightarrow> string \<Rightarrow> 'w state \<Rightarrow> (pyexc + bool) \<times> 'w state" where
  "convert_pdf_to_word_try env pdf_path docx_path s =
     (case exists_op env pdf_path s of (found, s1) \<Rightarrow>
        if \<not> found
        then (Inr False, logging_error (''Input file not found: '' @ pdf_path) s1)
        else
          (let output_dir = dirname docx_path
           in if output_dir = [] then conversion_steps env pdf_path docx_path s1
              else
                (case exists_op env output_dir s1 of (dir_found, s2) \<Rightarrow>
                   if dir_found then conversion_steps env pdf_path docx_path s2
                   else
                     (case call (Makedirs output_dir) (\<lambda>w. os_makedirs env w output_dir) s2 of
                        (Inl e, s3) \<Rightarrow> (Inl e, s3)
                      | (Inr u, s3) \<Rightarrow> conversion_steps env pdf_path docx_path s3))))"

text \<open>The function with its handler, lines 66 to 68.\<close>

definition convert_pdf_to_word ::
  "('w, 'c) env \<Rightarrow> string \<Rightarrow> string \<Rightarrow> 'w state \<Rightarrow> bool result \<times> 'w state" where
  "convert_pdf_to_word env pdf_path docx_path s =
     (case convert_pdf_to_word_try env pdf_path docx_path s of
        (Inr b, s') \<Rightarrow> (Return b, s')
      | (Inl e, s') \<Rightarrow>
          if is_Exception (exc_class_of e)
          then (Return False, logging_error (''Conversion error: '' @ str_exc e) s')
          else (Propagate e, s'))"

text \<open>\<^verbatim>\<open>main\<close>, lines 70 to 83, on the argument vector \<^verbatim>\<open>sys.argv\<close>.\<close>

definition main :: "('w, 'c) env \<Rightarrow> string list \<Rightarrow> 'w state \<Rightarrow> unit result \<times> 'w state" where
  "main env argv s =
     (if length argv \<noteq> 3
      then (SystemExit 1,
            logging_error ''Usage: python3 pdf_to_word.py <input_pdf_path> <output_docx_path>'' s)
      else
        (case convert_pdf_to_word env (argv ! 1) (argv ! 2) s of
           (Return success, s') \<Rightarrow> (SystemExit (if success then 0 else 1), s')
         | (SystemExit n, s') \<Rightarrow> (SystemExit n, s')
         | (Propagate e, s') \<Rightarrow> (Propagate e, s')))"

section \<open>\<^verbatim>\<open>src/functions/pdf_to_word.py\<close>\<close>

text \<open>Line 14, the line printed for one page.\<close>

definition page_line :: "int \<Rightarrow> int \<Rightarrow> string" where
  "page_line page num_pages =
     ''[INFO] ('' @ str_int page @ ''/'' @ str_int num_pages @ '') Page '' @ str_int page"

text \<open>The loop of lines 13 and 14 over \<^verbatim>\<open>range(1, num_pages + 1)\<close>.\<close>

definition print_pages :: "int \<Rightarrow> 'w state \<Rightarrow> 'w state" where
  "print_pages num_pages s =
     foldl (\<lambda>s' page. print_out (page_line page num_pages) s') s [1..num_pages]"

text \<open>The body of the \<^verbatim>\<open>try\<close> block, lines 6 to 21.\<close>

definition pdf_to_word_try ::
  "('w, 'c) env \<Rightarrow> string \<Rightarrow> string \<Rightarrow> 'w state \<Rightarrow> (pyexc + unit) \<times> 'w state" where
  "pdf_to_word_try env pdf_path docx_path s =
     (let s1 = print_out ''[INFO] [1/4] Initializing converter...'' s
      in case call (ConverterNew pdf_path) (\<lambda>w. Converter_new env w pdf_path) s1 of
           (Inl e, s2) \<Rightarrow> (Inl e, s2)
         | (Inr cv, s2) \<Rightarrow>
             (let s3 = print_out ''[INFO] [2/4] Parsing PDF...'' s2;
                  num_pages = 10;
                  s4 = print_pages num_pages s3;
                  s5 = print_out ''[INFO] [3/4] Converting to Word...'' s4
              in case call (Convert docx_path) (\<lambda>w. cv_convert env w cv docx_path 0 None) s5 of
                   (Inl e, s6) \<Rightarrow> (Inl e, s6)
                 | (Inr u, s6) \<Rightarrow>
                     (let s7 = print_out ''[INFO] [4/4] Finalizing...'' s6
                      in case call Close (\<lambda>w. cv_close env w cv) s7 of
                           (Inl e, s8) \<Rightarrow> (Inl e, s8)
                         | (Inr u', s8) \<Rightarrow>
                             (Inr (),
                              print_out (''Success: Converted '' @ pdf_path @ '' to '' @ docx_path) s8))))"

text \<open>The function with its handler, lines 22 to 24.\<close>

definition pdf_to_word ::
  "('w, 'c) env \<Rightarrow> string \<Rightarrow> string \<Rightarrow> 'w state \<Rightarrow> unit result \<times> 'w state" where
  "pdf_to_word env pdf_path docx_path s =
     (case pdf_to_word_try env pdf_path docx_path s of
        (Inr u, s') \<Rightarrow> (Return (), s')
      | (Inl e, s') \<Rightarrow>
          if is_Exception (exc_class_of e)
          then (SystemExit 1, print_out (''Error: '' @ str_exc e) s')
          else (Propagate e, s'))"

text \<open>The script, lines 26 to 33.\<close>

definition pdf_to_word_script ::
  "('w, 'c) env \<Rightarrow> string list \<Rightarrow> 'w state \<Rightarrow> unit result \<times> 'w state" where
  "pdf_to_word_script env argv s =
     (if length argv \<noteq> 3
      then (SystemExit 1, print_out ''Usage: python pdf_to_word.py <pdf_path> <docx_path>'' s)
      else pdf_to_word env (argv ! 1) (argv ! 2) s)"

section \<open>Reading a run\<close>

text \<open>The lines a run wrote to standard output.\<close>

fun stdout_lines :: "event list \<Rightarrow> string list" where
  "stdout_lines [] = []"
| "stdout_lines (Stdout l # evs) = l # stdout_lines evs"
| "stdout_lines (ev # evs) = stdout_lines evs"

text \<open>
  The page-progress lines among them: the lines of the form of line 14 of
  \<^verbatim>\<open>src/functions/pdf_to_word.py\<close>, which start with \<^verbatim>\<open>[INFO] (\<close>.
\<close>

definition is_page_line :: "string \<Rightarrow> bool" where
  "is_page_line l = (take 8 l = ''[INFO] ('')"

definition page_lines :: "event list \<Rightarrow> string list" where
  "page_lines evs = filter is_page_line (stdout_lines evs)"

text \<open>Events of a kind: the start of the subprocess, an exception raised.\<close>

fun is_subprocess_call :: "event \<Rightarrow> bool" where
  "is_subprocess_call (SubprocessRun c t) = True"
| "is_subprocess_call ev = False"

fun is_raised :: "event \<Rightarrow> bool" where
  "is_raised (Raised e) = True"
| "is_raised ev = False"

text \<open>
  An event that \<^verbatim>\<open>except Exception\<close> can deal with: anything but the raising of an
  exception outside the class \<^verbatim>\<open>Exception\<close>.
\<close>

fun caught_by_handler :: "event \<Rightarrow> bool" where
  "caught_by_handler (Raised e) = is_Exception (exc_class_of e)"
| "caught_by_handler ev = True"

section \<open>Sample worlds\<close>

text \<open>
  Concrete worlds on which the theorems below are evaluated. The file system is the list
  of the paths that exist. The office tool writes \<^verbatim>\<open><input_name>.pdf\<close> into the directory
  given after \<^verbatim>\<open>--outdir\<close> (the comment of line 25 of \<^verbatim>\<open>word_to_pdf.py\<close>), the input
  name being the base name without its last extension; the library opens a file that
  exists, reports 3 pages and writes the output file.
\<close>

definition strip_ext :: "string \<Rightarrow> string" where
  "strip_ext name =
     (if CHR ''.'' \<in> set name then rev (tl (dropWhile (\<lambda>c. c \<noteq> CHR ''.'') (rev name))) else name)"

definition sample_env :: "(string list, string) env" where
  "sample_env =
     \<lparr>os_path_exists = (\<lambda>w p. p \<in> set w),
      os_makedirs = (\<lambda>w d. (Inr (), d # w)),
      os_rename = (\<lambda>w a b.
         if a \<in> set w then (Inr (), b # removeAll a w)
         else (Inl (PyExc FileNotFoundError a), w)),
      subprocess_run = (\<lambda>w cmd t.
         (Inr \<lparr>returncode = 0, stdout = [], stderr = []\<rparr>,
          join (cmd ! 5) (strip_ext (basename (cmd ! 6)) @ ''.pdf'') # w)),
      Converter_new = (\<lambda>w p.
         if p \<in> set w then (Inr p, w) else (Inl (PyExc FileNotFoundError p), w)),
      cv_get_pages = (\<lambda>w cv. (Inr 3, w)),
      cv_convert = (\<lambda>w cv d start end. (Inr (), d # w)),
      cv_close = (\<lambda>w cv. (Inr (), w))\<rparr>"

text \<open>The same world with a subprocess that runs into the timeout of 240 seconds.\<close>

definition timeout_env :: "(string list, string) env" where
  "timeout_env =
     sample_env\<lparr>subprocess_run := (\<lambda>w cmd t.
        (Inl (PyExc TimeoutExpired ''Command timed out after 240 seconds''), w))\<rparr>"

text \<open>The same world with a library whose \<^verbatim>\<open>convert\<close> returns without writing a file.\<close>

definition silent_env :: "(string list, string) env" where
  "silent_env = sample_env\<lparr>cv_convert := (\<lambda>w cv d start end. (Inr (), w))\<rparr>"

text \<open>The same world with a library whose \<^verbatim>\<open>convert\<close> raises.\<close>

definition broken_env :: "(string list, string) env" where
  "broken_env =
     sample_env\<lparr>cv_convert := (\<lambda>w cv d start end. (Inl (PyExc ValueError ''cannot convert''), w))\<rparr>"

text \<open>The same world with an office tool that fails with exit status 1.\<close>

definition failed_tool_env :: "(string list, string) env" where
  "failed_tool_env =
     sample_env\<lparr>subprocess_run := (\<lambda>w cmd t.
        (Inr \<lparr>returncode = 1, stdout = [], stderr = ''no export filter''\<rparr>, w))\<rparr>"

text \<open>The same world with a file system that refuses to rename.\<close>

definition locked_env :: "(string list, string) env" where
  "locked_env =
     sample_env\<lparr>os_rename := (\<lambda>w a b. (Inl (PyExc OSError ''Permission denied''), w))\<rparr>"

definition sample_world :: "string list" where
  "sample_world = [libreoffice_path, ''/tmp'', ''/tmp/in.pdf'', ''/tmp/report.docx'', ''/tmp/report.doc'']"

section \<open>Unfolding the scripts\<close>

lemmas world_defs = init_def emit_def call_def exists_op_def raise_Exception_def
  print_out_def print_err_def logging_info_def logging_error_def

lemmas word_to_pdf_defs = convert_word_to_pdf_def convert_word_to_pdf_try_def

lemmas sample_defs = sample_env_def timeout_env_def silent_env_def sample_world_def
  libreoffice_path_def command_def generated_pdf_def dirname_def basename_def join_def
  sep_def strip_ext_def

lemmas pdf_to_word_defs = convert_pdf_to_word_def convert_pdf_to_word_try_def conversion_steps_def
  main_def pdf_to_word_def pdf_to_word_try_def pdf_to_word_script_def

lemmas number_defs = str_int_def str_nat.simps digit_char_def

lemmas pdf_sample_defs = sample_env_def silent_env_def broken_env_def sample_world_def
  libreoffice_path_def dirname_def sep_def

section \<open>Facts about strings and paths\<close>

lemma str_replace_avoids:
  "c \<notin> set s \<Longrightarrow> c \<notin> set new \<Longrightarrow> c \<notin> set (str_replace old new s)"
proof (induction old new s rule: str_replace.induct)
  case (1 old new)
  then show ?case by simp
next
  case (2 old new x xs)
  have "c \<notin> set (drop (length old) (x # xs))"
    using "2.prems"(1) by (meson in_set_dropD)
  with 2 show ?case by auto
qed

lemma basename_no_sep: "sep \<notin> set (basename p)"
  by (auto simp: basename_def dest: set_takeWhileD)

lemma dirname_bare: "sep \<notin> set p \<Longrightarrow> dirname p = []"
  by (auto simp: dirname_def)

lemma join_empty: "sep \<notin> set b \<Longrightarrow> join [] b = b"
  by (cases b) (auto simp: join_def)

lemma generated_pdf_bare:
  assumes "sep \<notin> set output_path"
  shows "generated_pdf input_path output_path = str_replace ''.docx'' ''.pdf'' (basename input_path)"
    and "sep \<notin> set (generated_pdf input_path output_path)"
proof -
  have n: "sep \<notin> set (str_replace ''.docx'' ''.pdf'' (basename input_path))"
    by (rule str_replace_avoids) (simp add: basename_no_sep, simp add: sep_def)
  show "generated_pdf input_path output_path = str_replace ''.docx'' ''.pdf'' (basename input_path)"
    using assms n by (simp add: generated_pdf_def dirname_bare join_empty)
  then show "sep \<notin> set (generated_pdf input_path output_path)"
    using n by simp
qed

section \<open>Facts about runs\<close>

lemma stdout_lines_append: "stdout_lines (xs @ ys) = stdout_lines xs @ stdout_lines ys"
  by (induction xs rule: stdout_lines.induct) simp_all

lemma foldl_print_out:
  "foldl (\<lambda>s' page. print_out (f page) s') s xs = s\<lparr>trace := trace s @ map (\<lambda>p. Stdout (f p)) xs\<rparr>"
  by (induction xs arbitrary: s) (simp_all add: print_out_def emit_def)

lemma print_pages_eq:
  "print_pages n s = s\<lparr>trace := trace s @ map (\<lambda>p. Stdout (page_line p n)) [1..n]\<rparr>"
  by (simp add: print_pages_def foldl_print_out)

lemma ten_page_lines:
  "map (\<lambda>p. page_line p 10) [1..10] =
     [''[INFO] (1/10) Page 1'', ''[INFO] (2/10) Page 2'', ''[INFO] (3/10) Page 3'',
      ''[INFO] (4/10) Page 4'', ''[INFO] (5/10) Page 5'', ''[INFO] (6/10) Page 6'',
      ''[INFO] (7/10) Page 7'', ''[INFO] (8/10) Page 8'', ''[INFO] (9/10) Page 9'',
      ''[INFO] (10/10) Page 10'']"
  by code_simp

lemma print_pages_10:
  "print_pages 10 s =
     s\<lparr>trace := trace s @ map Stdout
       [''[INFO] (1/10) Page 1'', ''[INFO] (2/10) Page 2'', ''[INFO] (3/10) Page 3'',
        ''[INFO] (4/10) Page 4'', ''[INFO] (5/10) Page 5'', ''[INFO] (6/10) Page 6'',
        ''[INFO] (7/10) Page 7'', ''[INFO] (8/10) Page 8'', ''[INFO] (9/10) Page 9'',
        ''[INFO] (10/10) Page 10'']\<rparr>"
proof -
  have "print_pages 10 s = s\<lparr>trace := trace s @ map Stdout (map (\<lambda>p. page_line p 10) [1..10])\<rparr>"
    unfolding print_pages_def foldl_print_out by simp
  then show ?thesis
    unfolding ten_page_lines .
qed

lemma list_ex_is_raised: "list_ex is_raised t \<longleftrightarrow> (\<exists>e. Raised e \<in> set t)"
proof (induction t)
  case Nil
  then show ?case by simp
next
  case (Cons ev t)
  then show ?case by (cases ev) auto
qed

lemma caught_by_handlerD:
  "list_all caught_by_handler t \<Longrightarrow> Raised e \<in> set t \<Longrightarrow> is_Exception (exc_class_of e)"
  by (auto simp: list_all_iff)

subsection \<open>How the PDF-to-Word functions end\<close>

lemma conversion_steps_outcome:
  assumes "\<not> list_ex is_raised (trace s)"
  shows "case conversion_steps env pdf_path docx_path s of
           (Inr b, s') \<Rightarrow>
             \<not> list_ex is_raised (trace s') \<and> b = os_path_exists env (world s') docx_path
             \<and> last (trace s') =
                 (if b then Stderr (''[INFO] Conversion completed successfully: '' @ docx_path)
                  else Stderr ''[ERROR] Conversion failed: Output file not created'')
         | (Inl e, s') \<Rightarrow>
             trace s' \<noteq> [] \<and> last (trace s') = Raised e
             \<and> (\<forall>e'. Raised e' \<in> set (trace s') \<longrightarrow> e' = e)"
  using assms
  by (auto simp: conversion_steps_def world_defs Let_def list_ex_is_raised
      split: prod.splits sum.splits)

lemma convert_pdf_to_word_try_outcome:
  "case convert_pdf_to_word_try env pdf_path docx_path (init w) of
     (Inr b, s') \<Rightarrow>
       \<not> list_ex is_raised (trace s')
       \<and> b = (os_path_exists env w pdf_path \<and> os_path_exists env (world s') docx_path)
       \<and> last (trace s') =
           (if b then Stderr (''[INFO] Conversion completed successfully: '' @ docx_path)
            else if os_path_exists env w pdf_path
            then Stderr ''[ERROR] Conversion failed: Output file not created''
            else Stderr (''[ERROR] Input file not found: '' @ pdf_path))
   | (Inl e, s') \<Rightarrow>
       trace s' \<noteq> [] \<and> last (trace s') = Raised e
       \<and> (\<forall>e'. Raised e' \<in> set (trace s') \<longrightarrow> e' = e)"
proof (cases "os_path_exists env w pdf_path")
  case False
  then show ?thesis
    by (simp add: convert_pdf_to_word_try_def world_defs)
next
  case True
  let ?d = "dirname docx_path"
  have s1: "\<not> list_ex is_raised (trace \<lparr>world = w, trace = [PathExists pdf_path]\<rparr>)" by simp
  have s2: "\<not> list_ex is_raised (trace \<lparr>world = w, trace = [PathExists pdf_path, PathExists ?d]\<rparr>)"
    by simp
  have s3: "\<not> list_ex is_raised
     (trace \<lparr>world = w', trace = [PathExists pdf_path, PathExists ?d, Makedirs ?d]\<rparr>)" for w' :: 'a
    by simp
  show ?thesis
  proof (cases "?d = []")
    case d: True
    show ?thesis
      using True d conversion_steps_outcome [OF s1, where env=env and pdf_path=pdf_path and docx_path=docx_path]
      by (auto simp: convert_pdf_to_word_try_def world_defs split: prod.splits sum.splits)
  next
    case d: False
    show ?thesis
    proof (cases "os_path_exists env w ?d")
      case x: True
      show ?thesis
        using True d x conversion_steps_outcome [OF s2, where env=env and pdf_path=pdf_path and docx_path=docx_path]
        by (auto simp: convert_pdf_to_word_try_def world_defs split: prod.splits sum.splits)
    next
      case x: False
      obtain r w' where m: "os_makedirs env w ?d = (r, w')"
        by (cases "os_makedirs env w ?d")
      show ?thesis
      proof (cases r)
        case (Inl e)
        then show ?thesis
          using True d x m
          by (simp add: convert_pdf_to_word_try_def world_defs Let_def)
      next
        case (Inr u)
        then show ?thesis
          using True d x m conversion_steps_outcome [OF s3 [of w'], where env=env and pdf_path=pdf_path and docx_path=docx_path]
          by (auto simp: convert_pdf_to_word_try_def world_defs split: prod.splits sum.splits)
      qed
    qed
  qed
qed

lemma pdf_to_word_try_outcome:
  "case pdf_to_word_try env pdf_path docx_path (init w) of
     (Inr u, s') \<Rightarrow>
       \<not> list_ex is_raised (trace s') \<and> trace s' \<noteq> []
       \<and> last (trace s') = Stdout (''Success: Converted '' @ pdf_path @ '' to '' @ docx_path)
   | (Inl e, s') \<Rightarrow>
       trace s' \<noteq> [] \<and> last (trace s') = Raised e
       \<and> (\<forall>e'. Raised e' \<in> set (trace s') \<longrightarrow> e' = e)"
  by (auto simp: pdf_to_word_try_def world_defs Let_def list_ex_is_raised print_pages_eq
      split: prod.splits sum.splits)

lemma convert_pdf_to_word_cases:
  fixes env :: "('w, 'c) env" and w :: 'w
  obtains
    (returned) b and s' :: "'w state" where
      "convert_pdf_to_word env pdf_path docx_path (init w) = (Return b, s')"
      "\<not> list_ex is_raised (trace s')"
      "b = (os_path_exists env w pdf_path \<and> os_path_exists env (world s') docx_path)"
      "b \<Longrightarrow> last (trace s') = Stderr (''[INFO] Conversion completed successfully: '' @ docx_path)"
  | (caught) e and s' :: "'w state" where
      "is_Exception (exc_class_of e)"
      "convert_pdf_to_word env pdf_path docx_path (init w) =
         (Return False, \<lparr>world = world s', trace = trace s' @ [Stderr (''[ERROR] Conversion error: '' @ str_exc e)]\<rparr>)"
      "Raised e \<in> set (trace s')"
      "\<And>e'. Raised e' \<in> set (trace s') \<Longrightarrow> e' = e"
  | (uncaught) e and s' :: "'w state" where
      "\<not> is_Exception (exc_class_of e)"
      "convert_pdf_to_word env pdf_path docx_path (init w) = (Propagate e, s')"
      "Raised e \<in> set (trace s')"
      "\<And>e'. Raised e' \<in> set (trace s') \<Longrightarrow> e' = e"
proof -
  obtain r s' where t: "convert_pdf_to_word_try env pdf_path docx_path (init w) = (r, s')"
    by (cases "convert_pdf_to_word_try env pdf_path docx_path (init w)")
  note o = convert_pdf_to_word_try_outcome [where env=env and pdf_path=pdf_path
      and docx_path=docx_path and w=w, unfolded t]
  show thesis
  proof (cases r)
    case (Inr b)
    show thesis
    proof (rule returned [of b s'])
      show "convert_pdf_to_word env pdf_path docx_path (init w) = (Return b, s')"
        using t Inr by (simp add: convert_pdf_to_word_def)
      show "\<not> list_ex is_raised (trace s')" using o Inr by simp
      show "b = (os_path_exists env w pdf_path \<and> os_path_exists env (world s') docx_path)"
        using o Inr by simp
      show "last (trace s') = Stderr (''[INFO] Conversion completed successfully: '' @ docx_path)" if b
        using o Inr that by simp
    qed
  next
    case (Inl e)
    with o have n: "trace s' \<noteq> []" and l: "last (trace s') = Raised e"
      and u: "\<And>e'. Raised e' \<in> set (trace s') \<Longrightarrow> e' = e"
      by simp_all
    from n l have m: "Raised e \<in> set (trace s')"
      by (metis last_in_set)
    show thesis
    proof (cases "is_Exception (exc_class_of e)")
      case True
      show thesis
      proof (rule caught [of e s'])
        show "is_Exception (exc_class_of e)" by fact
        show "convert_pdf_to_word env pdf_path docx_path (init w) =
          (Return False, \<lparr>world = world s', trace = trace s' @ [Stderr (''[ERROR] Conversion error: '' @ str_exc e)]\<rparr>)"
          using t Inl True by (simp add: convert_pdf_to_word_def logging_error_def emit_def)
        show "Raised e \<in> set (trace s')" by fact
        show "\<And>e'. Raised e' \<in> set (trace s') \<Longrightarrow> e' = e" by (rule u)
      qed
    next
      case False
      show thesis
      proof (rule uncaught [of e s'])
        show "\<not> is_Exception (exc_class_of e)" by fact
        show "convert_pdf_to_word env pdf_path docx_path (init w) = (Propagate e, s')"
          using t Inl False by (simp add: convert_pdf_to_word_def)
        show "Raised e \<in> set (trace s')" by fact
        show "\<And>e'. Raised e' \<in> set (trace s') \<Longrightarrow> e' = e" by (rule u)
      qed
    qed
  qed
qed

lemma convert_pdf_to_word_success:
  "fst (convert_pdf_to_word env pdf_path docx_path (init w)) = Return True \<longleftrightarrow>
     os_path_exists env w pdf_path
     \<and> \<not> list_ex is_raised (trace (snd (convert_pdf_to_word env pdf_path docx_path (init w))))
     \<and> os_path_exists env (world (snd (convert_pdf_to_word env pdf_path docx_path (init w)))) docx_path"
proof (cases rule: convert_pdf_to_word_cases [where env=env and pdf_path=pdf_path
      and docx_path=docx_path and w=w])
  case (returned b s')
  from returned(1,2,3) show ?thesis by auto
next
  case (caught e s')
  from caught(2,3) show ?thesis by (auto simp: list_ex_is_raised)
next
  case (uncaught e s')
  from uncaught(2,3) show ?thesis by (auto simp: list_ex_is_raised)
qed

lemma convert_pdf_to_word_success_line:
  assumes "fst (convert_pdf_to_word env pdf_path docx_path (init w)) = Return True"
  shows "last (trace (snd (convert_pdf_to_word env pdf_path docx_path (init w)))) =
       Stderr (''[INFO] Conversion completed successfully: '' @ docx_path)"
proof (cases rule: convert_pdf_to_word_cases [where env=env and pdf_path=pdf_path
      and docx_path=docx_path and w=w])
  case (returned b s')
  from assms returned(1) have b by simp
  with returned(1) returned(4) show ?thesis by simp
next
  case (caught e s')
  from assms caught(2) show ?thesis by simp
next
  case (uncaught e s')
  from assms uncaught(2) show ?thesis by simp
qed

lemma convert_pdf_to_word_caught:
  assumes "Raised e \<in> set (trace (snd (convert_pdf_to_word env pdf_path docx_path (init w))))"
    and "is_Exception (exc_class_of e)"
  shows "fst (convert_pdf_to_word env pdf_path docx_path (init w)) = Return False
     \<and> last (trace (snd (convert_pdf_to_word env pdf_path docx_path (init w)))) =
         Stderr (''[ERROR] Conversion error: '' @ str_exc e)"
proof (cases rule: convert_pdf_to_word_cases [where env=env and pdf_path=pdf_path
      and docx_path=docx_path and w=w])
  case (returned b s')
  from assms(1) returned(1,2) show ?thesis by (auto simp: list_ex_is_raised)
next
  case (caught e0 s')
  from assms(1) caught(2) have "Raised e \<in> set (trace s')" by simp
  then have "e = e0" by (rule caught(4))
  with caught(2) show ?thesis by simp
next
  case (uncaught e0 s')
  from assms(1) uncaught(2) have "Raised e \<in> set (trace s')" by simp
  then have "e = e0" by (rule uncaught(4))
  with assms(2) uncaught(1) show ?thesis by simp
qed

lemma main_exit:
  assumes "list_all caught_by_handler
             (trace (snd (convert_pdf_to_word env pdf_path docx_path (init w))))"
  shows "fst (main env [prog, pdf_path, docx_path] (init w)) =
       SystemExit (if fst (convert_pdf_to_word env pdf_path docx_path (init w)) = Return True
                   then 0 else 1)"
proof (cases rule: convert_pdf_to_word_cases [where env=env and pdf_path=pdf_path
      and docx_path=docx_path and w=w])
  case (returned b s')
  from returned(1) show ?thesis by (simp add: main_def)
next
  case (caught e s')
  from caught(2) show ?thesis by (simp add: main_def)
next
  case (uncaught e s')
  from assms uncaught(2,3) have "is_Exception (exc_class_of e)"
    by (auto dest: caught_by_handlerD)
  with uncaught(1) show ?thesis by simp
qed

lemma pdf_to_word_cases:
  fixes env :: "('w, 'c) env" and w :: 'w
  obtains
    (returned) s' :: "'w state" where
      "pdf_to_word env pdf_path docx_path (init w) = (Return (), s')"
      "\<not> list_ex is_raised (trace s')"
      "last (trace s') = Stdout (''Success: Converted '' @ pdf_path @ '' to '' @ docx_path)"
  | (caught) e and s' :: "'w state" where
      "is_Exception (exc_class_of e)"
      "pdf_to_word env pdf_path docx_path (init w) =
         (SystemExit 1, \<lparr>world = world s', trace = trace s' @ [Stdout (''Error: '' @ str_exc e)]\<rparr>)"
      "Raised e \<in> set (trace s')"
      "\<And>e'. Raised e' \<in> set (trace s') \<Longrightarrow> e' = e"
  | (uncaught) e and s' :: "'w state" where
      "\<not> is_Exception (exc_class_of e)"
      "pdf_to_word env pdf_path docx_path (init w) = (Propagate e, s')"
      "Raised e \<in> set (trace s')"
      "\<And>e'. Raised e' \<in> set (trace s') \<Longrightarrow> e' = e"
proof -
  obtain r s' where t: "pdf_to_word_try env pdf_path docx_path (init w) = (r, s')"
    by (cases "pdf_to_word_try env pdf_path docx_path (init w)")
  note o = pdf_to_word_try_outcome [where env=env and pdf_path=pdf_path
      and docx_path=docx_path and w=w, unfolded t]
  show thesis
  proof (cases r)
    case (Inr u)
    show thesis
    proof (rule returned [of s'])
      show "pdf_to_word env pdf_path docx_path (init w) = (Return (), s')"
        using t Inr by (simp add: pdf_to_word_def)
      show "\<not> list_ex is_raised (trace s')" using o Inr by simp
      show "last (trace s') = Stdout (''Success: Converted '' @ pdf_path @ '' to '' @ docx_path)"
        using o Inr by simp
    qed
  next
    case (Inl e)
    with o have n: "trace s' \<noteq> []" and l: "last (trace s') = Raised e"
      and u: "\<And>e'. Raised e' \<in> set (trace s') \<Longrightarrow> e' = e"
      by simp_all
    from n l have m: "Raised e \<in> set (trace s')"
      by (metis last_in_set)
    show thesis
    proof (cases "is_Exception (exc_class_of e)")
      case True
      show thesis
      proof (rule caught [of e s'])
        show "is_Exception (exc_class_of e)" by fact
        show "pdf_to_word env pdf_path docx_path (init w) =
          (SystemExit 1, \<lparr>world = world s', trace = trace s' @ [Stdout (''Error: '' @ str_exc e)]\<rparr>)"
          using t Inl True by (simp add: pdf_to_word_def print_out_def emit_def)
        show "Raised e \<in> set (trace s')" by fact
        show "\<And>e'. Raised e' \<in> set (trace s') \<Longrightarrow> e' = e" by (rule u)
      qed
    next
      case False
      show thesis
      proof (rule uncaught [of e s'])
        show "\<not> is_Exception (exc_class_of e)" by fact
        show "pdf_to_word env pdf_path docx_path (init w) = (Propagate e, s')"
          using t Inl False by (simp add: pdf_to_word_def)
        show "Raised e \<in> set (trace s')" by fact
        show "\<And>e'. Raised e' \<in> set (trace s') \<Longrightarrow> e' = e" by (rule u)
      qed
    qed
  qed
qed

lemma pdf_to_word_success:
  "fst (pdf_to_word env pdf_path docx_path (init w)) = Return () \<longleftrightarrow>
     \<not> list_ex is_raised (trace (snd (pdf_to_word env pdf_path docx_path (init w))))"
proof (cases rule: pdf_to_word_cases [where env=env and pdf_path=pdf_path
      and docx_path=docx_path and w=w])
  case (returned s')
  from returned(1,2) show ?thesis by simp
next
  case (caught e s')
  from caught(2,3) show ?thesis by (auto simp: list_ex_is_raised)
next
  case (uncaught e s')
  from uncaught(2,3) show ?thesis by (auto simp: list_ex_is_raised)
qed

lemma pdf_to_word_success_line:
  assumes "fst (pdf_to_word env pdf_path docx_path (init w)) = Return ()"
  shows "last (trace (snd (pdf_to_word env pdf_path docx_path (init w)))) =
       Stdout (''Success: Converted '' @ pdf_path @ '' to '' @ docx_path)"
proof (cases rule: pdf_to_word_cases [where env=env and pdf_path=pdf_path
      and docx_path=docx_path and w=w])
  case (returned s')
  from returned(1,3) show ?thesis by simp
next
  case (caught e s')
  from assms caught(2) show ?thesis by simp
next
  case (uncaught e s')
  from assms uncaught(2) show ?thesis by simp
qed

lemma pdf_to_word_caught:
  assumes "Raised e \<in> set (trace (snd (pdf_to_word env pdf_path docx_path (init w))))"
    and "is_Exception (exc_class_of e)"
  shows "fst (pdf_to_word env pdf_path docx_path (init w)) = SystemExit 1
     \<and> last (trace (snd (pdf_to_word env pdf_path docx_path (init w)))) =
         Stdout (''Error: '' @ str_exc e)"
proof (cases rule: pdf_to_word_cases [where env=env and pdf_path=pdf_path
      and docx_path=docx_path and w=w])
  case (returned s')
  from assms(1) returned(1,2) show ?thesis by (auto simp: list_ex_is_raised)
next
  case (caught e0 s')
  from assms(1) caught(2) have "Raised e \<in> set (trace s')" by simp
  then have "e = e0" by (rule caught(4))
  with caught(2) show ?thesis by simp
next
  case (uncaught e0 s')
  from assms(1) uncaught(2) have "Raised e \<in> set (trace s')" by simp
  then have "e = e0" by (rule uncaught(4))
  with assms(2) uncaught(1) show ?thesis by simp
qed

lemma pdf_to_word_script_exit:
  assumes "list_all caught_by_handler (trace (snd (pdf_to_word env pdf_path docx_path (init w))))"
  shows "exit_code (fst (pdf_to_word_script env [prog, pdf_path, docx_path] (init w))) =
       Some (if fst (pdf_to_word env pdf_path docx_path (init w)) = Return () then 0 else 1)"
proof (cases rule: pdf_to_word_cases [where env=env and pdf_path=pdf_path
      and docx_path=docx_path and w=w])
  case (returned s')
  from returned(1) show ?thesis by (simp add: pdf_to_word_script_def)
next
  case (caught e s')
  from caught(2) show ?thesis by (simp add: pdf_to_word_script_def)
next
  case (uncaught e s')
  from assms uncaught(2,3) have "is_Exception (exc_class_of e)"
    by (auto dest: caught_by_handlerD)
  with uncaught(1) show ?thesis by simp
qed

lemma conversion_steps_extends:
  "take (length (trace s)) (trace (snd (conversion_steps env pdf_path docx_path s))) = trace s"
  by (auto simp: conversion_steps_def world_defs Let_def split: prod.splits sum.splits)

lemma pdf_to_word_no_makedirs:
  "Makedirs d \<notin> set (trace (snd (pdf_to_word env pdf_path docx_path (init w))))"
  by (auto simp: pdf_to_word_def pdf_to_word_try_def world_defs print_pages_eq Let_def
      split: prod.splits sum.splits)

lemma page_lines_of_run:
  assumes "Converter_new env w pdf_path = (Inr cv, w1)"
  shows "page_lines (trace (snd (pdf_to_word env pdf_path docx_path (init w)))) =
     [''[INFO] (1/10) Page 1'', ''[INFO] (2/10) Page 2'', ''[INFO] (3/10) Page 3'',
      ''[INFO] (4/10) Page 4'', ''[INFO] (5/10) Page 5'', ''[INFO] (6/10) Page 6'',
      ''[INFO] (7/10) Page 7'', ''[INFO] (8/10) Page 8'', ''[INFO] (9/10) Page 9'',
      ''[INFO] (10/10) Page 10'']"
proof -
  obtain r2 w2 where c: "cv_convert env w1 cv docx_path 0 None = (r2, w2)"
    by (cases "cv_convert env w1 cv docx_path 0 None")
  obtain r3 w3 where d: "cv_close env w2 cv = (r3, w3)"
    by (cases "cv_close env w2 cv")
  show ?thesis
    using assms c d
    by (cases r2; cases r3)
       (simp_all add: pdf_to_word_def pdf_to_word_try_def world_defs print_pages_10
          page_lines_def stdout_lines_append is_page_line_def Let_def)
qed

subsection \<open>How \<^verbatim>\<open>convert_word_to_pdf\<close> ends\<close>

text \<open>
  With the executable present, the result, the world and the log of a run are fixed by
  what \<^verbatim>\<open>subprocess.run\<close>, \<^verbatim>\<open>os.path.exists\<close> and \<^verbatim>\<open>os.rename\<close> answer.
\<close>

lemma convert_word_to_pdf_runs:
  assumes "os_path_exists env w libreoffice_path"
  shows "(subprocess_run env w (command input_path output_path) 240 = (Inl e, w1)
            \<and> is_Exception (exc_class_of e) \<longrightarrow>
          convert_word_to_pdf env input_path output_path (init w) =
            (SystemExit 1,
             \<lparr>world = w1,
              trace = [PathExists libreoffice_path,
                       SubprocessRun (command input_path output_path) 240,
                       Raised e, Stderr (''Error: '' @ str_exc e)]\<rparr>))"
    and "(subprocess_run env w (command input_path output_path) 240 = (Inr r, w1)
            \<and> returncode r \<noteq> 0 \<longrightarrow>
          convert_word_to_pdf env input_path output_path (init w) =
            (SystemExit 1,
             \<lparr>world = w1,
              trace = [PathExists libreoffice_path,
                       SubprocessRun (command input_path output_path) 240,
                       Raised (PyExc Exception (''LibreOffice failed: '' @ stderr r)),
                       Stderr (''Error: LibreOffice failed: '' @ stderr r)]\<rparr>))"
    and "(subprocess_run env w (command input_path output_path) 240 = (Inr r, w1)
            \<and> returncode r = 0
            \<and> \<not> os_path_exists env w1 (generated_pdf input_path output_path) \<longrightarrow>
          convert_word_to_pdf env input_path output_path (init w) =
            (SystemExit 1,
             \<lparr>world = w1,
              trace = [PathExists libreoffice_path,
                       SubprocessRun (command input_path output_path) 240,
                       PathExists (generated_pdf input_path output_path),
                       Raised (PyExc Exception ''Output PDF not created''),
                       Stderr ''Error: Output PDF not created'']\<rparr>))"
    and "(subprocess_run env w (command input_path output_path) 240 = (Inr r, w1)
            \<and> returncode r = 0
            \<and> os_path_exists env w1 (generated_pdf input_path output_path)
            \<and> os_rename env w1 (generated_pdf input_path output_path) output_path = (Inr (), w2) \<longrightarrow>
          convert_word_to_pdf env input_path output_path (init w) =
            (Return (),
             \<lparr>world = w2,
              trace = [PathExists libreoffice_path,
                       SubprocessRun (command input_path output_path) 240,
                       PathExists (generated_pdf input_path output_path),
                       Rename (generated_pdf input_path output_path) output_path]\<rparr>))"
    and "(subprocess_run env w (command input_path output_path) 240 = (Inr r, w1)
            \<and> returncode r = 0
            \<and> os_path_exists env w1 (generated_pdf input_path output_path)
            \<and> os_rename env w1 (generated_pdf input_path output_path) output_path = (Inl e, w2)
            \<and> is_Exception (exc_class_of e) \<longrightarrow>
          convert_word_to_pdf env input_path output_path (init w) =
            (SystemExit 1,
             \<lparr>world = w2,
              trace = [PathExists libreoffice_path,
                       SubprocessRun (command input_path output_path) 240,
                       PathExists (generated_pdf input_path output_path),
                       Rename (generated_pdf input_path output_path) output_path,
                       Raised e, Stderr (''Error: '' @ str_exc e)]\<rparr>))"
  using assms by (simp_all add: word_to_pdf_defs world_defs)

section \<open>Properties of \<^verbatim>\<open>src/functions/word_to_pdf.py\<close>\<close>

text \<open>
  Whenever the executable exists, the subprocess returns with code 0 and a file exists
  at \<^verbatim>\<open>generated_pdf\<close>, the fourth step of the run is
  \<^verbatim>\<open>os.rename(generated_pdf, output_path)\<close>; if that call returns, the function returns
  in the world the call left and the script exits with 0.
\<close>

lemma rename_call_shape:
  assumes "os_path_exists env w libreoffice_path"
    and "subprocess_run env w (command input_path output_path) 240 = (Inr r, w1)"
    and "returncode r = 0"
    and "os_path_exists env w1 (generated_pdf input_path output_path)"
  shows "take 4 (trace (snd (convert_word_to_pdf env input_path output_path (init w)))) =
           [PathExists libreoffice_path,
            SubprocessRun (command input_path output_path) 240,
            PathExists (generated_pdf input_path output_path),
            Rename (generated_pdf input_path output_path) output_path]
         \<and> (os_rename env w1 (generated_pdf input_path output_path) output_path = (Inr (), w2) \<longrightarrow>
              convert_word_to_pdf env input_path output_path (init w) =
                (Return (),
                 \<lparr>world = w2,
                  trace = [PathExists libreoffice_path,
                           SubprocessRun (command input_path output_path) 240,
                           PathExists (generated_pdf input_path output_path),
                           Rename (generated_pdf input_path output_path) output_path]\<rparr>)
              \<and> exit_code (fst (word_to_pdf_script env [prog, input_path, output_path] (init w))) = Some 0)"
  using assms
  by (simp add: convert_word_to_pdf_def convert_word_to_pdf_try_def init_def emit_def call_def
        exists_op_def raise_Exception_def print_err_def word_to_pdf_script_def
        split: prod.splits sum.splits)

text \<open>
  C1: when the subprocess succeeds and its auto-named output file exists,
  \<^verbatim>\<open>convert_word_to_pdf\<close> moves that file to the requested output path, so that the PDF
  ends up there. The code at the input \<^verbatim>\<open>/tmp/report.doc\<close> with the output path
  \<^verbatim>\<open>/tmp/result.pdf\<close>: the tool writes \<^verbatim>\<open>/tmp/report.pdf\<close>, but \<^verbatim>\<open>generated_pdf\<close> is
  \<^verbatim>\<open>/tmp/report.doc\<close>, the input document itself, which exists; the function renames the
  Word document to \<^verbatim>\<open>/tmp/result.pdf\<close> and returns, and the PDF stays at
  \<^verbatim>\<open>/tmp/report.pdf\<close>.
\<close>

theorem renames_input_document:
  "generated_pdf ''/tmp/report.doc'' ''/tmp/result.pdf'' = ''/tmp/report.doc''
   \<and> convert_word_to_pdf sample_env ''/tmp/report.doc'' ''/tmp/result.pdf'' (init sample_world) =
       (Return (),
        \<lparr>world = [''/tmp/result.pdf'', ''/tmp/report.pdf'', libreoffice_path, ''/tmp'',
                  ''/tmp/in.pdf'', ''/tmp/report.docx''],
         trace = [PathExists libreoffice_path,
                  SubprocessRun (command ''/tmp/report.doc'' ''/tmp/result.pdf'') 240,
                  PathExists ''/tmp/report.doc'',
                  Rename ''/tmp/report.doc'' ''/tmp/result.pdf'']\<rparr>)"
  by (simp add: word_to_pdf_defs world_defs sample_defs)

text \<open>
  C2: the file that \<^verbatim>\<open>convert_word_to_pdf\<close> checks for and renames lies in the output
  path's directory and is named by the input's base name with the extension
  \<^verbatim>\<open>.pdf\<close>, also when the base name does not end in \<^verbatim>\<open>.docx\<close>. The code at the input
  \<^verbatim>\<open>/tmp/report.doc\<close> with the output path \<^verbatim>\<open>/tmp/out/result.pdf\<close>: line 26 replaces
  \<^verbatim>\<open>.docx\<close> by \<^verbatim>\<open>.pdf\<close> and so leaves \<^verbatim>\<open>report.doc\<close> as it is; the function looks
  for \<^verbatim>\<open>/tmp/out/report.doc\<close>, not for \<^verbatim>\<open>/tmp/out/report.pdf\<close> which the tool wrote,
  and exits with 1.
\<close>

theorem generated_pdf_other_extension:
  "generated_pdf ''/tmp/report.doc'' ''/tmp/out/result.pdf'' = ''/tmp/out/report.doc''
   \<and> generated_pdf ''/tmp/report.doc'' ''/tmp/out/result.pdf''
       \<noteq> join (dirname ''/tmp/out/result.pdf'') (strip_ext (basename ''/tmp/report.doc'') @ ''.pdf'')
   \<and> convert_word_to_pdf sample_env ''/tmp/report.doc'' ''/tmp/out/result.pdf'' (init sample_world) =
       (SystemExit 1,
        \<lparr>world = ''/tmp/out/report.pdf'' # sample_world,
         trace = [PathExists libreoffice_path,
                  SubprocessRun (command ''/tmp/report.doc'' ''/tmp/out/result.pdf'') 240,
                  PathExists ''/tmp/out/report.doc'',
                  Raised (PyExc Exception ''Output PDF not created''),
                  Stderr ''Error: Output PDF not created'']\<rparr>)"
  by (simp add: convert_word_to_pdf_def convert_word_to_pdf_try_def init_def emit_def call_def
        exists_op_def raise_Exception_def print_err_def sample_defs)

text \<open>
  The claim C3 as it is written says that a timeout of the subprocess leaves
  \<^verbatim>\<open>convert_word_to_pdf\<close> uncaught. On a world whose subprocess raises
  \<^verbatim>\<open>TimeoutExpired\<close>, the function exits with code 1 after printing the error.
\<close>

theorem timeout_propagates_counterexample:
  "fst (convert_word_to_pdf timeout_env ''/tmp/report.docx'' ''/tmp/out/result.pdf''
          (init sample_world)) = SystemExit 1
   \<and> fst (convert_word_to_pdf timeout_env ''/tmp/report.docx'' ''/tmp/out/result.pdf''
          (init sample_world))
       \<noteq> Propagate (PyExc TimeoutExpired ''Command timed out after 240 seconds'')
   \<and> trace (snd (convert_word_to_pdf timeout_env ''/tmp/report.docx'' ''/tmp/out/result.pdf''
          (init sample_world))) =
       [PathExists ''/usr/lib/libreoffice/program/soffice'',
        SubprocessRun [''/usr/lib/libreoffice/program/soffice'', ''--headless'',
                       ''--convert-to'', ''pdf'', ''--outdir'', ''/tmp/out'', ''/tmp/report.docx''] 240,
        Raised (PyExc TimeoutExpired ''Command timed out after 240 seconds''),
        Stderr ''Error: Command timed out after 240 seconds'']"
  by (simp add: word_to_pdf_defs world_defs sample_defs)

text \<open>
  C3, amended: if the subprocess exceeds the timeout of 240 seconds,
  \<^verbatim>\<open>subprocess.run\<close> raises \<^verbatim>\<open>TimeoutExpired\<close>, a subclass of \<^verbatim>\<open>Exception\<close>; the
  handler of \<^verbatim>\<open>convert_word_to_pdf\<close> catches it, prints \<^verbatim>\<open>Error:\<close> and the message
  to standard error, and the process exits with code 1.
\<close>

theorem timeout_is_caught:
  assumes "os_path_exists env w libreoffice_path"
    and "subprocess_run env w (command input_path output_path) 240 =
           (Inl (PyExc TimeoutExpired msg), w1)"
  shows "convert_word_to_pdf env input_path output_path (init w) =
           (SystemExit 1,
            \<lparr>world = w1,
             trace = [PathExists libreoffice_path,
                      SubprocessRun (command input_path output_path) 240,
                      Raised (PyExc TimeoutExpired msg),
                      Stderr (''Error: '' @ msg)]\<rparr>)"
  using assms by (simp add: word_to_pdf_defs world_defs)

theorem timeout_is_caught_witness:
  "os_path_exists timeout_env sample_world libreoffice_path
   \<and> subprocess_run timeout_env sample_world
        (command ''/tmp/report.docx'' ''/tmp/out/result.pdf'') 240 =
       (Inl (PyExc TimeoutExpired ''Command timed out after 240 seconds''), sample_world)
   \<and> convert_word_to_pdf timeout_env ''/tmp/report.docx'' ''/tmp/out/result.pdf''
        (init sample_world) =
       (SystemExit 1,
        \<lparr>world = sample_world,
         trace = [PathExists libreoffice_path,
                  SubprocessRun (command ''/tmp/report.docx'' ''/tmp/out/result.pdf'') 240,
                  Raised (PyExc TimeoutExpired ''Command timed out after 240 seconds''),
                  Stderr ''Error: Command timed out after 240 seconds'']\<rparr>)"
proof -
  have h1: "os_path_exists timeout_env sample_world libreoffice_path"
    by (simp add: timeout_env_def sample_env_def sample_world_def)
  have h2: "subprocess_run timeout_env sample_world
        (command ''/tmp/report.docx'' ''/tmp/out/result.pdf'') 240 =
       (Inl (PyExc TimeoutExpired ''Command timed out after 240 seconds''), sample_world)"
    by (simp add: timeout_env_def sample_env_def)
  show ?thesis
    using h1 h2 timeout_is_caught [OF h1 h2] by simp
qed

text \<open>
  C4: for every input and output path, if the fixed path of the headless executable does
  not exist, \<^verbatim>\<open>convert_word_to_pdf\<close> exits with code 1 and never invokes the subprocess:
  the run consists of the existence test, the exception raised in line 10 and the line
  printed by the handler, and leaves the world as it was.
\<close>

theorem missing_executable_exits_1:
  assumes "\<not> os_path_exists env w libreoffice_path"
  shows "convert_word_to_pdf env input_path output_path (init w) =
           (SystemExit 1,
            \<lparr>world = w,
             trace = [PathExists libreoffice_path,
                      Raised (PyExc Exception ''LibreOffice not found''),
                      Stderr ''Error: LibreOffice not found'']\<rparr>)
         \<and> \<not> list_ex is_subprocess_call
               (trace (snd (convert_word_to_pdf env input_path output_path (init w))))
         \<and> exit_code (fst (word_to_pdf_script env [prog, input_path, output_path] (init w))) = Some 1"
  using assms by (simp add: word_to_pdf_defs world_defs word_to_pdf_script_def)

theorem missing_executable_exits_1_witness:
  "\<not> os_path_exists sample_env [''/tmp/report.docx''] libreoffice_path
   \<and> convert_word_to_pdf sample_env ''/tmp/report.docx'' ''/tmp/out/result.pdf''
        (init [''/tmp/report.docx'']) =
       (SystemExit 1,
        \<lparr>world = [''/tmp/report.docx''],
         trace = [PathExists ''/usr/lib/libreoffice/program/soffice'',
                  Raised (PyExc Exception ''LibreOffice not found''),
                  Stderr ''Error: LibreOffice not found'']\<rparr>)"
proof -
  have h: "\<not> os_path_exists sample_env [''/tmp/report.docx''] libreoffice_path"
    by (simp add: sample_env_def libreoffice_path_def)
  show ?thesis
    using h missing_executable_exits_1 [OF h, of "''/tmp/report.docx''" "''/tmp/out/result.pdf''" "''word_to_pdf.py''"]
    by (simp add: libreoffice_path_def)
qed

text \<open>
  C10: for every output path without a directory component (no slash in it),
  \<^verbatim>\<open>convert_word_to_pdf\<close> passes the empty string after \<^verbatim>\<open>--outdir\<close> and checks for the
  generated PDF at a bare file name, the input's base name with \<^verbatim>\<open>.docx\<close> replaced: it
  neither rejects the path nor puts the current directory in its place. With the
  executable present the subprocess is run with that command, and the run ends as the
  calls answer: by what \<^verbatim>\<open>subprocess.run\<close> returns or raises on the command with the empty
  directory, by whether \<^verbatim>\<open>os.path.exists\<close> finds the bare name in the world the subprocess
  left, and by what \<^verbatim>\<open>os.rename\<close> of the bare name to the output path does there.
\<close>

theorem bare_output_filename:
  assumes "sep \<notin> set output_path"
  shows "command input_path output_path =
           [libreoffice_path, ''--headless'', ''--convert-to'', ''pdf'', ''--outdir'', [], input_path]
         \<and> generated_pdf input_path output_path = (str_replace ''.docx'' ''.pdf'' (basename input_path))
         \<and> sep \<notin> set (generated_pdf input_path output_path)
         \<and> (os_path_exists env w libreoffice_path \<longrightarrow>
              take 2 (trace (snd (convert_word_to_pdf env input_path output_path (init w)))) =
                [PathExists libreoffice_path,
                         SubprocessRun [libreoffice_path, ''--headless'', ''--convert-to'', ''pdf'', ''--outdir'', [], input_path] 240])
         \<and> (os_path_exists env w libreoffice_path
              \<and> subprocess_run env w
                 [libreoffice_path, ''--headless'', ''--convert-to'', ''pdf'', ''--outdir'', [], input_path] 240 = (Inl e, w1)
              \<and> is_Exception (exc_class_of e) \<longrightarrow>
            convert_word_to_pdf env input_path output_path (init w) =
              (SystemExit 1,
               \<lparr>world = w1,
                trace = [PathExists libreoffice_path,
                         SubprocessRun [libreoffice_path, ''--headless'', ''--convert-to'', ''pdf'', ''--outdir'', [], input_path] 240,
                         Raised e, Stderr (''Error: '' @ str_exc e)]\<rparr>))
         \<and> (os_path_exists env w libreoffice_path
              \<and> subprocess_run env w
                 [libreoffice_path, ''--headless'', ''--convert-to'', ''pdf'', ''--outdir'', [], input_path] 240 = (Inr r, w1)
              \<and> returncode r \<noteq> 0 \<longrightarrow>
            convert_word_to_pdf env input_path output_path (init w) =
              (SystemExit 1,
               \<lparr>world = w1,
                trace = [PathExists libreoffice_path,
                         SubprocessRun [libreoffice_path, ''--headless'', ''--convert-to'', ''pdf'', ''--outdir'', [], input_path] 240,
                         Raised (PyExc Exception (''LibreOffice failed: '' @ stderr r)),
                         Stderr (''Error: LibreOffice failed: '' @ stderr r)]\<rparr>))
         \<and> (os_path_exists env w libreoffice_path
              \<and> subprocess_run env w
                 [libreoffice_path, ''--headless'', ''--convert-to'', ''pdf'', ''--outdir'', [], input_path] 240 = (Inr r, w1)
              \<and> returncode r = 0
              \<and> \<not> os_path_exists env w1 (str_replace ''.docx'' ''.pdf'' (basename input_path)) \<longrightarrow>
            convert_word_to_pdf env input_path output_path (init w) =
              (SystemExit 1,
               \<lparr>world = w1,
                trace = [PathExists libreoffice_path,
                         SubprocessRun [libreoffice_path, ''--headless'', ''--convert-to'', ''pdf'', ''--outdir'', [], input_path] 240,
                         PathExists (str_replace ''.docx'' ''.pdf'' (basename input_path)),
                         Raised (PyExc Exception ''Output PDF not created''),
                         Stderr ''Error: Output PDF not created'']\<rparr>))
         \<and> (os_path_exists env w libreoffice_path
              \<and> subprocess_run env w
                 [libreoffice_path, ''--headless'', ''--convert-to'', ''pdf'', ''--outdir'', [], input_path] 240 = (Inr r, w1)
              \<and> returncode r = 0
              \<and> os_path_exists env w1 (str_replace ''.docx'' ''.pdf'' (basename input_path))
              \<and> os_rename env w1 (str_replace ''.docx'' ''.pdf'' (basename input_path)) output_path = (Inr (), w2) \<longrightarrow>
            convert_word_to_pdf env input_path output_path (init w) =
              (Return (),
               \<lparr>world = w2,
                trace = [PathExists libreoffice_path,
                         SubprocessRun [libreoffice_path, ''--headless'', ''--convert-to'', ''pdf'', ''--outdir'', [], input_path] 240,
                         PathExists (str_replace ''.docx'' ''.pdf'' (basename input_path)),
                         Rename (str_replace ''.docx'' ''.pdf'' (basename input_path)) output_path]\<rparr>))
         \<and> (os_path_exists env w libreoffice_path
              \<and> subprocess_run env w
                 [libreoffice_path, ''--headless'', ''--convert-to'', ''pdf'', ''--outdir'', [], input_path] 240 = (Inr r, w1)
              \<and> returncode r = 0
              \<and> os_path_exists env w1 (str_replace ''.docx'' ''.pdf'' (basename input_path))
              \<and> os_rename env w1 (str_replace ''.docx'' ''.pdf'' (basename input_path)) output_path = (Inl e, w2)
              \<and> is_Exception (exc_class_of e) \<longrightarrow>
            convert_word_to_pdf env input_path output_path (init w) =
              (SystemExit 1,
               \<lparr>world = w2,
                trace = [PathExists libreoffice_path,
                         SubprocessRun [libreoffice_path, ''--headless'', ''--convert-to'', ''pdf'', ''--outdir'', [], input_path] 240,
                         PathExists (str_replace ''.docx'' ''.pdf'' (basename input_path)),
                         Rename (str_replace ''.docx'' ''.pdf'' (basename input_path)) output_path,
                         Raised e, Stderr (''Error: '' @ str_exc e)]\<rparr>))"
proof -
  have c: "command input_path output_path =
           [libreoffice_path, ''--headless'', ''--convert-to'', ''pdf'', ''--outdir'', [], input_path]"
    using assms by (simp add: command_def dirname_bare)
  note g = generated_pdf_bare [OF assms, of input_path]
  have t2: "take 2 (trace (snd (convert_word_to_pdf env input_path output_path (init w)))) =
                [PathExists libreoffice_path,
                 SubprocessRun (command input_path output_path) 240]"
    if "os_path_exists env w libreoffice_path"
    using that
    by (cases "subprocess_run env w (command input_path output_path) 240")
       (auto simp: convert_word_to_pdf_def convert_word_to_pdf_try_def init_def emit_def call_def
          exists_op_def raise_Exception_def print_err_def split: sum.splits prod.splits)
  note r1 = convert_word_to_pdf_runs(1) [where env=env and w=w and input_path=input_path
      and output_path=output_path and e=e and ?w1.0=w1, unfolded c g(1)]
  note r2 = convert_word_to_pdf_runs(2) [where env=env and w=w and input_path=input_path
      and output_path=output_path and r=r and ?w1.0=w1, unfolded c g(1)]
  note r3 = convert_word_to_pdf_runs(3) [where env=env and w=w and input_path=input_path
      and output_path=output_path and r=r and ?w1.0=w1, unfolded c g(1)]
  note r4 = convert_word_to_pdf_runs(4) [where env=env and w=w and input_path=input_path
      and output_path=output_path and r=r and ?w1.0=w1 and ?w2.0=w2, unfolded c g(1)]
  note r5 = convert_word_to_pdf_runs(5) [where env=env and w=w and input_path=input_path
      and output_path=output_path and e=e and r=r and ?w1.0=w1 and ?w2.0=w2, unfolded c g(1)]
  show ?thesis
    using c g t2 [unfolded c] r1 r2 r3 r4 r5 by blast
qed

theorem bare_output_filename_witness:
  "sep \<notin> set ''result.pdf''
   \<and> command ''/tmp/report.docx'' ''result.pdf'' = [libreoffice_path, ''--headless'', ''--convert-to'', ''pdf'', ''--outdir'', [], ''/tmp/report.docx'']
   \<and> generated_pdf ''/tmp/report.docx'' ''result.pdf'' = ''report.pdf''
   \<and> generated_pdf ''/tmp/report.doc'' ''result.pdf'' = ''report.doc''
   \<and> os_path_exists sample_env sample_world libreoffice_path
   \<and> subprocess_run sample_env sample_world [libreoffice_path, ''--headless'', ''--convert-to'', ''pdf'', ''--outdir'', [], ''/tmp/report.docx''] 240 =
       (Inr \<lparr>returncode = 0, stdout = [], stderr = []\<rparr>, ''report.pdf'' # sample_world)
   \<and> convert_word_to_pdf sample_env ''/tmp/report.docx'' ''result.pdf'' (init sample_world) =
       (Return (),
        \<lparr>world = ''result.pdf'' # sample_world,
         trace = [PathExists libreoffice_path, SubprocessRun [libreoffice_path, ''--headless'', ''--convert-to'', ''pdf'', ''--outdir'', [], ''/tmp/report.docx''] 240,
                  PathExists ''report.pdf'', Rename ''report.pdf'' ''result.pdf'']\<rparr>)
   \<and> convert_word_to_pdf sample_env ''/tmp/report.doc'' ''result.pdf'' (init sample_world) =
       (SystemExit 1,
        \<lparr>world = ''report.pdf'' # sample_world,
         trace = [PathExists libreoffice_path,
                  SubprocessRun [libreoffice_path, ''--headless'', ''--convert-to'', ''pdf'',
                                 ''--outdir'', [], ''/tmp/report.doc''] 240,
                  PathExists ''report.doc'',
                  Raised (PyExc Exception ''Output PDF not created''),
                  Stderr ''Error: Output PDF not created'']\<rparr>)
   \<and> convert_word_to_pdf timeout_env ''/tmp/report.docx'' ''result.pdf'' (init sample_world) =
       (SystemExit 1,
        \<lparr>world = sample_world,
         trace = [PathExists libreoffice_path, SubprocessRun [libreoffice_path, ''--headless'', ''--convert-to'', ''pdf'', ''--outdir'', [], ''/tmp/report.docx''] 240,
                  Raised (PyExc TimeoutExpired ''Command timed out after 240 seconds''),
                  Stderr ''Error: Command timed out after 240 seconds'']\<rparr>)
   \<and> convert_word_to_pdf failed_tool_env ''/tmp/report.docx'' ''result.pdf'' (init sample_world) =
       (SystemExit 1,
        \<lparr>world = sample_world,
         trace = [PathExists libreoffice_path, SubprocessRun [libreoffice_path, ''--headless'', ''--convert-to'', ''pdf'', ''--outdir'', [], ''/tmp/report.docx''] 240,
                  Raised (PyExc Exception ''LibreOffice failed: no export filter''),
                  Stderr ''Error: LibreOffice failed: no export filter'']\<rparr>)
   \<and> convert_word_to_pdf locked_env ''/tmp/report.docx'' ''result.pdf'' (init sample_world) =
       (SystemExit 1,
        \<lparr>world = ''report.pdf'' # sample_world,
         trace = [PathExists libreoffice_path, SubprocessRun [libreoffice_path, ''--headless'', ''--convert-to'', ''pdf'', ''--outdir'', [], ''/tmp/report.docx''] 240,
                  PathExists ''report.pdf'', Rename ''report.pdf'' ''result.pdf'',
                  Raised (PyExc OSError ''Permission denied''),
                  Stderr ''Error: Permission denied'']\<rparr>)"
proof -
  let ?ok = "\<lparr>returncode = 0, stdout = [], stderr = []\<rparr>"
  let ?bad = "\<lparr>returncode = 1, stdout = [], stderr = ''no export filter''\<rparr>"
  let ?w1 = "''report.pdf'' # sample_world"
  have h: "sep \<notin> set ''result.pdf''" by (simp add: sep_def)
  have b: "str_replace ''.docx'' ''.pdf'' (basename ''/tmp/report.docx'') = ''report.pdf''"
    by (simp add: basename_def sep_def)
  have b': "str_replace ''.docx'' ''.pdf'' (basename ''/tmp/report.doc'') = ''report.doc''"
    by (simp add: basename_def sep_def)
  have e: "os_path_exists sample_env sample_world libreoffice_path"
    "os_path_exists timeout_env sample_world libreoffice_path"
    "os_path_exists failed_tool_env sample_world libreoffice_path"
    "os_path_exists locked_env sample_world libreoffice_path"
    by (simp_all add: sample_env_def timeout_env_def failed_tool_env_def locked_env_def
        sample_world_def)
  have run: "subprocess_run sample_env sample_world [libreoffice_path, ''--headless'', ''--convert-to'', ''pdf'', ''--outdir'', [], ''/tmp/report.docx''] 240 = (Inr ?ok, ?w1)"
    by (simp add: sample_env_def basename_def join_def strip_ext_def sep_def)
  have run': "subprocess_run sample_env sample_world
      [libreoffice_path, ''--headless'', ''--convert-to'', ''pdf'', ''--outdir'', [],
       ''/tmp/report.doc''] 240 = (Inr ?ok, ?w1)"
    by (simp add: sample_env_def basename_def join_def strip_ext_def sep_def)
  have run_t: "subprocess_run timeout_env sample_world [libreoffice_path, ''--headless'', ''--convert-to'', ''pdf'', ''--outdir'', [], ''/tmp/report.docx''] 240 =
      (Inl (PyExc TimeoutExpired ''Command timed out after 240 seconds''), sample_world)"
    by (simp add: timeout_env_def sample_env_def)
  have run_f: "subprocess_run failed_tool_env sample_world [libreoffice_path, ''--headless'', ''--convert-to'', ''pdf'', ''--outdir'', [], ''/tmp/report.docx''] 240 = (Inr ?bad, sample_world)"
    by (simp add: failed_tool_env_def sample_env_def)
  have run_l: "subprocess_run locked_env sample_world [libreoffice_path, ''--headless'', ''--convert-to'', ''pdf'', ''--outdir'', [], ''/tmp/report.docx''] 240 = (Inr ?ok, ?w1)"
    by (simp add: locked_env_def sample_env_def basename_def join_def strip_ext_def sep_def)
  have x: "os_path_exists sample_env ?w1 ''report.pdf''"
    "\<not> os_path_exists sample_env ?w1 ''report.doc''"
    "os_path_exists locked_env ?w1 ''report.pdf''"
    by (simp_all add: sample_env_def locked_env_def sample_world_def libreoffice_path_def)
  have mv: "os_rename sample_env ?w1 ''report.pdf'' ''result.pdf'' =
      (Inr (), ''result.pdf'' # sample_world)"
    by (simp add: sample_env_def sample_world_def libreoffice_path_def)
  have mv_l: "os_rename locked_env ?w1 ''report.pdf'' ''result.pdf'' =
      (Inl (PyExc OSError ''Permission denied''), ?w1)"
    by (simp add: locked_env_def sample_env_def)
  note t_ok = bare_output_filename [OF h, where input_path="''/tmp/report.docx''"
      and env=sample_env and w=sample_world and r="?ok" and ?w1.0="?w1"
      and ?w2.0="''result.pdf'' # sample_world", unfolded b]
  note t_doc = bare_output_filename [OF h, where input_path="''/tmp/report.doc''"
      and env=sample_env and w=sample_world and r="?ok" and ?w1.0="?w1", unfolded b']
  note t_to = bare_output_filename [OF h, where input_path="''/tmp/report.docx''"
      and env=timeout_env and w=sample_world and ?w1.0=sample_world
      and e="PyExc TimeoutExpired ''Command timed out after 240 seconds''", unfolded b]
  note t_fail = bare_output_filename [OF h, where input_path="''/tmp/report.docx''"
      and env=failed_tool_env and w=sample_world and r="?bad" and ?w1.0=sample_world, unfolded b]
  note t_lock = bare_output_filename [OF h, where input_path="''/tmp/report.docx''"
      and env=locked_env and w=sample_world and r="?ok" and ?w1.0="?w1" and ?w2.0="?w1"
      and e="PyExc OSError ''Permission denied''", unfolded b]
  have c: "command ''/tmp/report.docx'' ''result.pdf'' = [libreoffice_path, ''--headless'', ''--convert-to'', ''pdf'', ''--outdir'', [], ''/tmp/report.docx'']"
    and g: "generated_pdf ''/tmp/report.docx'' ''result.pdf'' = ''report.pdf''"
    using t_ok by blast+
  have g': "generated_pdf ''/tmp/report.doc'' ''result.pdf'' = ''report.doc''"
    using t_doc by blast
  have k1: "convert_word_to_pdf sample_env ''/tmp/report.docx'' ''result.pdf'' (init sample_world) =
       (Return (),
        \<lparr>world = ''result.pdf'' # sample_world,
         trace = [PathExists libreoffice_path, SubprocessRun [libreoffice_path, ''--headless'', ''--convert-to'', ''pdf'', ''--outdir'', [], ''/tmp/report.docx''] 240,
                  PathExists ''report.pdf'', Rename ''report.pdf'' ''result.pdf'']\<rparr>)"
    using t_ok e(1) run x(1) mv by simp
  have k2: "convert_word_to_pdf sample_env ''/tmp/report.doc'' ''result.pdf'' (init sample_world) =
       (SystemExit 1,
        \<lparr>world = ''report.pdf'' # sample_world,
         trace = [PathExists libreoffice_path,
                  SubprocessRun [libreoffice_path, ''--headless'', ''--convert-to'', ''pdf'',
                                 ''--outdir'', [], ''/tmp/report.doc''] 240,
                  PathExists ''report.doc'',
                  Raised (PyExc Exception ''Output PDF not created''),
                  Stderr ''Error: Output PDF not created'']\<rparr>)"
    using t_doc e(1) run' x(2) by simp
  have k3: "convert_word_to_pdf timeout_env ''/tmp/report.docx'' ''result.pdf'' (init sample_world) =
       (SystemExit 1,
        \<lparr>world = sample_world,
         trace = [PathExists libreoffice_path, SubprocessRun [libreoffice_path, ''--headless'', ''--convert-to'', ''pdf'', ''--outdir'', [], ''/tmp/report.docx''] 240,
                  Raised (PyExc TimeoutExpired ''Command timed out after 240 seconds''),
                  Stderr ''Error: Command timed out after 240 seconds'']\<rparr>)"
    using t_to e(2) run_t by simp
  have k4: "convert_word_to_pdf failed_tool_env ''/tmp/report.docx'' ''result.pdf'' (init sample_world) =
       (SystemExit 1,
        \<lparr>world = sample_world,
         trace = [PathExists libreoffice_path, SubprocessRun [libreoffice_path, ''--headless'', ''--convert-to'', ''pdf'', ''--outdir'', [], ''/tmp/report.docx''] 240,
                  Raised (PyExc Exception ''LibreOffice failed: no export filter''),
                  Stderr ''Error: LibreOffice failed: no export filter'']\<rparr>)"
    using t_fail e(3) run_f by simp
  have k5: "convert_word_to_pdf locked_env ''/tmp/report.docx'' ''result.pdf'' (init sample_world) =
       (SystemExit 1,
        \<lparr>world = ''report.pdf'' # sample_world,
         trace = [PathExists libreoffice_path, SubprocessRun [libreoffice_path, ''--headless'', ''--convert-to'', ''pdf'', ''--outdir'', [], ''/tmp/report.docx''] 240,
                  PathExists ''report.pdf'', Rename ''report.pdf'' ''result.pdf'',
                  Raised (PyExc OSError ''Permission denied''),
                  Stderr ''Error: Permission denied'']\<rparr>)"
    using t_lock e(4) run_l x(3) mv_l by simp
  from h c g g' e(1) run k1 k2 k3 k4 k5 show ?thesis
    by (intro conjI)
qed

section \<open>Properties of the PDF-to-Word scripts\<close>

text \<open>
  The claim C5 as it is written speaks of both PDF-to-Word variants. In
  \<^verbatim>\<open>src/functions/pdf_to_word.py\<close>, on a world whose library returns from
  \<^verbatim>\<open>convert\<close> without writing a file, the script prints its success line and ends with
  exit code 0 although the output file does not exist.
\<close>

theorem success_without_output_counterexample:
  "fst (pdf_to_word_script silent_env [''pdf_to_word.py'', ''/tmp/in.pdf'', ''/tmp/out/result.docx'']
         (init sample_world)) = Return ()
   \<and> exit_code (fst (pdf_to_word_script silent_env
         [''pdf_to_word.py'', ''/tmp/in.pdf'', ''/tmp/out/result.docx''] (init sample_world))) = Some 0
   \<and> last (trace (snd (pdf_to_word_script silent_env
         [''pdf_to_word.py'', ''/tmp/in.pdf'', ''/tmp/out/result.docx''] (init sample_world)))) =
       Stdout ''Success: Converted /tmp/in.pdf to /tmp/out/result.docx''
   \<and> \<not> os_path_exists silent_env
         (world (snd (pdf_to_word_script silent_env
            [''pdf_to_word.py'', ''/tmp/in.pdf'', ''/tmp/out/result.docx''] (init sample_world))))
         ''/tmp/out/result.docx''"
  by (simp add: pdf_to_word_defs world_defs print_pages_eq sample_env_def silent_env_def
      sample_world_def libreoffice_path_def)

text \<open>
  C5, amended. \<^verbatim>\<open>convert_pdf_to_word\<close> of \<^verbatim>\<open>src/pdf_to_word.py\<close> reports success
  (returns \<^verbatim>\<open>True\<close> and logs the success line) exactly when the input file existed, no
  call raised and the output file exists in the world the library calls left; an
  exception of class \<^verbatim>\<open>Exception\<close> raised on the way is caught, logged as
  \<^verbatim>\<open>Conversion error\<close> and reported as \<^verbatim>\<open>False\<close>; \<^verbatim>\<open>main\<close> exits with 0 exactly in
  the success case and with 1 otherwise. \<^verbatim>\<open>pdf_to_word\<close> of
  \<^verbatim>\<open>src/functions/pdf_to_word.py\<close> reports success (prints the success line and
  returns) exactly when no call raised, without looking at the output file; an exception
  of class \<^verbatim>\<open>Exception\<close> is caught, printed as \<^verbatim>\<open>Error\<close> and the process exits with
  1; otherwise the script ends with exit code 0. The exit codes are stated for runs in
  which nothing outside the class \<^verbatim>\<open>Exception\<close> is raised.
\<close>

theorem success_reporting:
  "(fst (convert_pdf_to_word env pdf_path docx_path (init w)) = Return True \<longleftrightarrow>
      os_path_exists env w pdf_path
      \<and> \<not> list_ex is_raised (trace (snd (convert_pdf_to_word env pdf_path docx_path (init w))))
      \<and> os_path_exists env (world (snd (convert_pdf_to_word env pdf_path docx_path (init w))))
           docx_path)
   \<and> (fst (convert_pdf_to_word env pdf_path docx_path (init w)) = Return True \<longrightarrow>
        last (trace (snd (convert_pdf_to_word env pdf_path docx_path (init w)))) =
          Stderr (''[INFO] Conversion completed successfully: '' @ docx_path))
   \<and> (Raised e \<in> set (trace (snd (convert_pdf_to_word env pdf_path docx_path (init w))))
        \<and> is_Exception (exc_class_of e) \<longrightarrow>
        fst (convert_pdf_to_word env pdf_path docx_path (init w)) = Return False
        \<and> last (trace (snd (convert_pdf_to_word env pdf_path docx_path (init w)))) =
            Stderr (''[ERROR] Conversion error: '' @ str_exc e))
   \<and> (list_all caught_by_handler
          (trace (snd (convert_pdf_to_word env pdf_path docx_path (init w)))) \<longrightarrow>
        fst (main env [prog, pdf_path, docx_path] (init w)) =
          SystemExit (if fst (convert_pdf_to_word env pdf_path docx_path (init w)) = Return True
                      then 0 else 1))
   \<and> (fst (pdf_to_word env pdf_path docx_path (init w)) = Return () \<longleftrightarrow>
        \<not> list_ex is_raised (trace (snd (pdf_to_word env pdf_path docx_path (init w)))))
   \<and> (fst (pdf_to_word env pdf_path docx_path (init w)) = Return () \<longrightarrow>
        last (trace (snd (pdf_to_word env pdf_path docx_path (init w)))) =
          Stdout (''Success: Converted '' @ pdf_path @ '' to '' @ docx_path))
   \<and> (Raised e \<in> set (trace (snd (pdf_to_word env pdf_path docx_path (init w))))
        \<and> is_Exception (exc_class_of e) \<longrightarrow>
        fst (pdf_to_word env pdf_path docx_path (init w)) = SystemExit 1
        \<and> last (trace (snd (pdf_to_word env pdf_path docx_path (init w)))) =
            Stdout (''Error: '' @ str_exc e))
   \<and> (list_all caught_by_handler (trace (snd (pdf_to_word env pdf_path docx_path (init w)))) \<longrightarrow>
        exit_code (fst (pdf_to_word_script env [prog, pdf_path, docx_path] (init w))) =
          Some (if fst (pdf_to_word env pdf_path docx_path (init w)) = Return () then 0 else 1))"
proof -
  note a = convert_pdf_to_word_success [of env pdf_path docx_path w]
  note b = convert_pdf_to_word_success_line [of env pdf_path docx_path w]
  note c = convert_pdf_to_word_caught [of e env pdf_path docx_path w]
  note d = main_exit [of env pdf_path docx_path w prog]
  note f = pdf_to_word_success [of env pdf_path docx_path w]
  note g = pdf_to_word_success_line [of env pdf_path docx_path w]
  note h = pdf_to_word_caught [of e env pdf_path docx_path w]
  note i = pdf_to_word_script_exit [of env pdf_path docx_path w prog]
  show ?thesis
    using a b c d f g h i by blast
qed

theorem success_reporting_witness:
  "fst (convert_pdf_to_word sample_env ''/tmp/in.pdf'' ''/tmp/out/result.docx'' (init sample_world)) =
     Return True
   \<and> os_path_exists sample_env
        (world (snd (convert_pdf_to_word sample_env ''/tmp/in.pdf'' ''/tmp/out/result.docx''
           (init sample_world)))) ''/tmp/out/result.docx''
   \<and> last (trace (snd (convert_pdf_to_word sample_env ''/tmp/in.pdf'' ''/tmp/out/result.docx''
        (init sample_world)))) =
       Stderr ''[INFO] Conversion completed successfully: /tmp/out/result.docx''
   \<and> fst (main sample_env [''pdf_to_word.py'', ''/tmp/in.pdf'', ''/tmp/out/result.docx'']
        (init sample_world)) = SystemExit 0
   \<and> fst (pdf_to_word sample_env ''/tmp/in.pdf'' ''/tmp/out/result.docx'' (init sample_world)) =
       Return ()
   \<and> exit_code (fst (pdf_to_word_script sample_env
        [''pdf_to_word.py'', ''/tmp/in.pdf'', ''/tmp/out/result.docx''] (init sample_world))) = Some 0
   \<and> fst (convert_pdf_to_word broken_env ''/tmp/in.pdf'' ''/tmp/out/result.docx'' (init sample_world)) =
       Return False
   \<and> last (trace (snd (convert_pdf_to_word broken_env ''/tmp/in.pdf'' ''/tmp/out/result.docx''
        (init sample_world)))) = Stderr ''[ERROR] Conversion error: cannot convert''
   \<and> fst (main broken_env [''pdf_to_word.py'', ''/tmp/in.pdf'', ''/tmp/out/result.docx'']
        (init sample_world)) = SystemExit 1
   \<and> fst (pdf_to_word broken_env ''/tmp/in.pdf'' ''/tmp/out/result.docx'' (init sample_world)) =
       SystemExit 1
   \<and> last (trace (snd (pdf_to_word broken_env ''/tmp/in.pdf'' ''/tmp/out/result.docx''
        (init sample_world)))) = Stdout ''Error: cannot convert''
   \<and> exit_code (fst (pdf_to_word_script broken_env
        [''pdf_to_word.py'', ''/tmp/in.pdf'', ''/tmp/out/result.docx''] (init sample_world))) = Some 1"
proof -
  let ?R = "convert_pdf_to_word sample_env ''/tmp/in.pdf'' ''/tmp/out/result.docx'' (init sample_world)"
  let ?P = "pdf_to_word sample_env ''/tmp/in.pdf'' ''/tmp/out/result.docx'' (init sample_world)"
  let ?R' = "convert_pdf_to_word broken_env ''/tmp/in.pdf'' ''/tmp/out/result.docx'' (init sample_world)"
  let ?P' = "pdf_to_word broken_env ''/tmp/in.pdf'' ''/tmp/out/result.docx'' (init sample_world)"
  let ?e = "PyExc ValueError ''cannot convert''"
  have r: "os_path_exists sample_env sample_world ''/tmp/in.pdf''
      \<and> \<not> list_ex is_raised (trace (snd ?R))
      \<and> os_path_exists sample_env (world (snd ?R)) ''/tmp/out/result.docx''
      \<and> list_all caught_by_handler (trace (snd ?R))"
    by (simp add: pdf_to_word_defs world_defs pdf_sample_defs number_defs Let_def)
  have p: "\<not> list_ex is_raised (trace (snd ?P)) \<and> list_all caught_by_handler (trace (snd ?P))"
    by (auto simp: pdf_to_word_defs world_defs pdf_sample_defs print_pages_eq list_ex_is_raised Let_def
        list_all_iff)
  have r': "Raised ?e \<in> set (trace (snd ?R')) \<and> is_Exception (exc_class_of ?e)
      \<and> list_all caught_by_handler (trace (snd ?R'))"
    by (simp add: pdf_to_word_defs world_defs pdf_sample_defs number_defs Let_def)
  have p': "Raised ?e \<in> set (trace (snd ?P')) \<and> is_Exception (exc_class_of ?e)
      \<and> list_all caught_by_handler (trace (snd ?P'))"
    by (auto simp: pdf_to_word_defs world_defs pdf_sample_defs print_pages_eq list_all_iff Let_def)
  note ok = success_reporting [of sample_env "''/tmp/in.pdf''" "''/tmp/out/result.docx''"
      sample_world ?e "''pdf_to_word.py''"]
  note ko = success_reporting [of broken_env "''/tmp/in.pdf''" "''/tmp/out/result.docx''"
      sample_world ?e "''pdf_to_word.py''"]
  have t: "fst ?R = Return True" using ok r by blast
  have u: "fst ?P = Return ()" using ok p by blast
  have t': "fst ?R' = Return False" using ko r' by blast
  have u': "fst ?P' = SystemExit 1" using ko p' by blast
  have a1: "last (trace (snd ?R)) = Stderr ''[INFO] Conversion completed successfully: /tmp/out/result.docx''"
    using ok t by simp
  have a2: "fst (main sample_env [''pdf_to_word.py'', ''/tmp/in.pdf'', ''/tmp/out/result.docx'']
        (init sample_world)) = SystemExit 0"
    using ok r t by simp
  have a3: "exit_code (fst (pdf_to_word_script sample_env
        [''pdf_to_word.py'', ''/tmp/in.pdf'', ''/tmp/out/result.docx''] (init sample_world))) = Some 0"
    using ok p u by simp
  have b1: "last (trace (snd ?R')) = Stderr ''[ERROR] Conversion error: cannot convert''"
    using ko r' by simp
  have b2: "fst (main broken_env [''pdf_to_word.py'', ''/tmp/in.pdf'', ''/tmp/out/result.docx'']
        (init sample_world)) = SystemExit 1"
    using ko r' t' by simp
  have b3: "last (trace (snd ?P')) = Stdout ''Error: cannot convert''"
    using ko p' by simp
  have b4: "exit_code (fst (pdf_to_word_script broken_env
        [''pdf_to_word.py'', ''/tmp/in.pdf'', ''/tmp/out/result.docx''] (init sample_world))) = Some 1"
    using ko p' u' by simp
  from r have r3: "os_path_exists sample_env (world (snd ?R)) ''/tmp/out/result.docx''" by blast
  from t r3 a1 a2 u a3 t' b1 b2 u' b3 b4 show ?thesis
    by (intro conjI)
qed

text \<open>
  C6: for an input path that does not exist, \<^verbatim>\<open>convert_pdf_to_word\<close> returns
  \<^verbatim>\<open>False\<close> after the existence test and the error line alone: no directory is made,
  no library call is attempted and the world is left as it was, so no output file is
  produced; \<^verbatim>\<open>main\<close> exits with code 1.
\<close>

theorem missing_input_fails_early:
  assumes "\<not> os_path_exists env w pdf_path"
  shows "convert_pdf_to_word env pdf_path docx_path (init w) =
           (Return False,
            \<lparr>world = w,
             trace = [PathExists pdf_path,
                      Stderr (''[ERROR] Input file not found: '' @ pdf_path)]\<rparr>)
         \<and> main env [prog, pdf_path, docx_path] (init w) =
           (SystemExit 1,
            \<lparr>world = w,
             trace = [PathExists pdf_path,
                      Stderr (''[ERROR] Input file not found: '' @ pdf_path)]\<rparr>)"
  using assms
  by (simp add: main_def convert_pdf_to_word_def convert_pdf_to_word_try_def world_defs)

theorem missing_input_fails_early_witness:
  "\<not> os_path_exists sample_env sample_world ''/tmp/nope.pdf''
   \<and> convert_pdf_to_word sample_env ''/tmp/nope.pdf'' ''/tmp/out/result.docx'' (init sample_world) =
           (Return False,
            \<lparr>world = sample_world,
             trace = [PathExists ''/tmp/nope.pdf'',
                      Stderr ''[ERROR] Input file not found: /tmp/nope.pdf'']\<rparr>)
   \<and> main sample_env [''pdf_to_word.py'', ''/tmp/nope.pdf'', ''/tmp/out/result.docx'']
        (init sample_world) =
           (SystemExit 1,
            \<lparr>world = sample_world,
             trace = [PathExists ''/tmp/nope.pdf'',
                      Stderr ''[ERROR] Input file not found: /tmp/nope.pdf'']\<rparr>)"
proof -
  have h: "\<not> os_path_exists sample_env sample_world ''/tmp/nope.pdf''"
    by (simp add: sample_env_def sample_world_def libreoffice_path_def)
  show ?thesis
    using h missing_input_fails_early [OF h, of "''/tmp/out/result.docx''" "''pdf_to_word.py''"]
    by simp
qed

text \<open>
  The claim C7 as it is written speaks of both PDF-to-Word variants. In
  \<^verbatim>\<open>src/functions/pdf_to_word.py\<close>, with an output path whose directory
  \<^verbatim>\<open>/tmp/out\<close> does not exist, the library's \<^verbatim>\<open>convert\<close> is called and no directory is
  ever made: the directory still does not exist at the end of the run.
\<close>

theorem no_directory_created_counterexample:
  "dirname ''/tmp/out/result.docx'' = ''/tmp/out''
   \<and> \<not> os_path_exists sample_env sample_world ''/tmp/out''
   \<and> Convert ''/tmp/out/result.docx''
        \<in> set (trace (snd (pdf_to_word sample_env ''/tmp/in.pdf'' ''/tmp/out/result.docx''
                   (init sample_world))))
   \<and> Makedirs ''/tmp/out''
        \<notin> set (trace (snd (pdf_to_word sample_env ''/tmp/in.pdf'' ''/tmp/out/result.docx''
                   (init sample_world))))
   \<and> \<not> os_path_exists sample_env
          (world (snd (pdf_to_word sample_env ''/tmp/in.pdf'' ''/tmp/out/result.docx''
                   (init sample_world)))) ''/tmp/out''"
  by (auto simp: pdf_to_word_defs world_defs pdf_sample_defs print_pages_eq Let_def)

text \<open>
  C7, amended. In \<^verbatim>\<open>src/pdf_to_word.py\<close>, for an input file that exists and an output
  path whose directory component is not empty and does not exist,
  \<^verbatim>\<open>convert_pdf_to_word\<close> calls \<^verbatim>\<open>os.makedirs\<close> on that directory as its third step,
  before any call into the library: when \<^verbatim>\<open>os.makedirs\<close> returns, lines 41 to 64 (the
  library calls) run in the world it left; when it raises, no conversion is attempted.
  \<^verbatim>\<open>src/functions/pdf_to_word.py\<close> never makes a directory.
\<close>

theorem output_directory_created:
  assumes "os_path_exists env w pdf_path"
    and "dirname docx_path \<noteq> []"
    and "\<not> os_path_exists env w (dirname docx_path)"
  shows "(os_makedirs env w (dirname docx_path) = (Inr (), w1) \<longrightarrow>
            convert_pdf_to_word_try env pdf_path docx_path (init w) =
              conversion_steps env pdf_path docx_path
                \<lparr>world = w1,
                 trace = [PathExists pdf_path, PathExists (dirname docx_path),
                          Makedirs (dirname docx_path)]\<rparr>)
         \<and> (os_makedirs env w (dirname docx_path) = (Inl e, w1) \<longrightarrow>
            convert_pdf_to_word_try env pdf_path docx_path (init w) =
              (Inl e,
               \<lparr>world = w1,
                trace = [PathExists pdf_path, PathExists (dirname docx_path),
                         Makedirs (dirname docx_path), Raised e]\<rparr>))
         \<and> take 3 (trace (snd (convert_pdf_to_word env pdf_path docx_path (init w)))) =
             [PathExists pdf_path, PathExists (dirname docx_path), Makedirs (dirname docx_path)]
         \<and> Makedirs d \<notin> set (trace (snd (pdf_to_word env pdf_path docx_path (init w))))"
proof -
  let ?d = "dirname docx_path"
  let ?pre = "[PathExists pdf_path, PathExists ?d, Makedirs ?d]"
  obtain r w' where m: "os_makedirs env w ?d = (r, w')"
    by (cases "os_makedirs env w ?d")
  have ok: "convert_pdf_to_word_try env pdf_path docx_path (init w) =
      conversion_steps env pdf_path docx_path \<lparr>world = w1, trace = ?pre\<rparr>"
    if "os_makedirs env w ?d = (Inr (), w1)" for w1
    using assms that by (simp add: convert_pdf_to_word_try_def world_defs Let_def)
  have ko: "convert_pdf_to_word_try env pdf_path docx_path (init w) =
      (Inl e, \<lparr>world = w1, trace = ?pre @ [Raised e]\<rparr>)"
    if "os_makedirs env w ?d = (Inl e, w1)" for e w1
    using assms that by (simp add: convert_pdf_to_word_try_def world_defs Let_def)
  have pre: "take 3 (trace (snd (convert_pdf_to_word env pdf_path docx_path (init w)))) = ?pre"
  proof (cases r)
    case (Inl e')
    with m have "convert_pdf_to_word_try env pdf_path docx_path (init w) =
      (Inl e', \<lparr>world = w', trace = ?pre @ [Raised e']\<rparr>)"
      by (simp add: ko)
    then show ?thesis
      by (simp add: convert_pdf_to_word_def logging_error_def emit_def)
  next
    case (Inr u)
    with m have c: "convert_pdf_to_word_try env pdf_path docx_path (init w) =
      conversion_steps env pdf_path docx_path \<lparr>world = w', trace = ?pre\<rparr>"
      by (simp add: ok)
    obtain r2 s2 where s: "conversion_steps env pdf_path docx_path \<lparr>world = w', trace = ?pre\<rparr>
        = (r2, s2)"
      by (cases "conversion_steps env pdf_path docx_path \<lparr>world = w', trace = ?pre\<rparr>")
    have t: "take 3 (trace s2) = ?pre"
      using conversion_steps_extends [of "\<lparr>world = w', trace = ?pre\<rparr>" env pdf_path docx_path]
      by (simp add: s numeral_3_eq_3)
    have len: "3 \<le> length (trace s2)"
      using arg_cong [OF t, of length] by simp
    show ?thesis
      using c s t len
      by (cases r2) (simp_all add: convert_pdf_to_word_def logging_error_def emit_def)
  qed
  show ?thesis
    using ok [of w1] ko [of e w1] pre pdf_to_word_no_makedirs [of d env pdf_path docx_path w]
    by simp
qed

theorem output_directory_created_witness:
  "os_path_exists sample_env sample_world ''/tmp/in.pdf''
   \<and> dirname ''/tmp/out/result.docx'' = ''/tmp/out''
   \<and> \<not> os_path_exists sample_env sample_world ''/tmp/out''
   \<and> os_makedirs sample_env sample_world ''/tmp/out'' = (Inr (), ''/tmp/out'' # sample_world)
   \<and> os_path_exists sample_env (''/tmp/out'' # sample_world) ''/tmp/out''
   \<and> convert_pdf_to_word_try sample_env ''/tmp/in.pdf'' ''/tmp/out/result.docx'' (init sample_world) =
       conversion_steps sample_env ''/tmp/in.pdf'' ''/tmp/out/result.docx''
         \<lparr>world = ''/tmp/out'' # sample_world,
          trace = [PathExists ''/tmp/in.pdf'', PathExists ''/tmp/out'', Makedirs ''/tmp/out'']\<rparr>
   \<and> take 3 (trace (snd (convert_pdf_to_word sample_env ''/tmp/in.pdf'' ''/tmp/out/result.docx''
        (init sample_world)))) =
       [PathExists ''/tmp/in.pdf'', PathExists ''/tmp/out'', Makedirs ''/tmp/out'']"
proof -
  have d: "dirname ''/tmp/out/result.docx'' = ''/tmp/out''"
    by (simp add: dirname_def sep_def)
  have h1: "os_path_exists sample_env sample_world ''/tmp/in.pdf''"
    by (simp add: sample_env_def sample_world_def)
  have h2: "dirname ''/tmp/out/result.docx'' \<noteq> []"
    by (simp add: d)
  have h3: "\<not> os_path_exists sample_env sample_world (dirname ''/tmp/out/result.docx'')"
    by (simp add: d sample_env_def sample_world_def libreoffice_path_def)
  have m: "os_makedirs sample_env sample_world ''/tmp/out'' = (Inr (), ''/tmp/out'' # sample_world)"
    by (simp add: sample_env_def)
  have x: "os_path_exists sample_env (''/tmp/out'' # sample_world) ''/tmp/out''"
    by (simp add: sample_env_def)
  show ?thesis
    using d h1 h3 m x
      output_directory_created [OF h1 h2 h3, of "''/tmp/out'' # sample_world"]
    by simp
qed

text \<open>
  C9: in \<^verbatim>\<open>src/functions/pdf_to_word.py\<close>, whenever the converter has opened the input
  and the page loop runs, the run prints exactly the 10 page-progress lines with the fixed
  page count 10; for any two worlds, inputs and outputs the sequences of page-progress
  lines are the same.
\<close>

theorem fixed_page_progress:
  assumes "Converter_new env w pdf_path = (Inr cv, w1)"
    and "Converter_new env' w' pdf_path' = (Inr cv', w1')"
  shows "page_lines (trace (snd (pdf_to_word env pdf_path docx_path (init w)))) =
           [''[INFO] (1/10) Page 1'', ''[INFO] (2/10) Page 2'', ''[INFO] (3/10) Page 3'',
            ''[INFO] (4/10) Page 4'', ''[INFO] (5/10) Page 5'', ''[INFO] (6/10) Page 6'',
            ''[INFO] (7/10) Page 7'', ''[INFO] (8/10) Page 8'', ''[INFO] (9/10) Page 9'',
            ''[INFO] (10/10) Page 10'']
         \<and> length (page_lines (trace (snd (pdf_to_word env pdf_path docx_path (init w))))) = 10
         \<and> page_lines (trace (snd (pdf_to_word env pdf_path docx_path (init w)))) =
             page_lines (trace (snd (pdf_to_word env' pdf_path' docx_path' (init w'))))"
  using page_lines_of_run [OF assms(1), of docx_path] page_lines_of_run [OF assms(2), of docx_path']
  by simp

theorem fixed_page_progress_witness:
  "Converter_new sample_env sample_world ''/tmp/in.pdf'' = (Inr ''/tmp/in.pdf'', sample_world)
   \<and> Converter_new silent_env (''/tmp/other.pdf'' # sample_world) ''/tmp/other.pdf'' =
       (Inr ''/tmp/other.pdf'', ''/tmp/other.pdf'' # sample_world)
   \<and> page_lines (trace (snd (pdf_to_word sample_env ''/tmp/in.pdf'' ''/tmp/out/result.docx''
        (init sample_world)))) =
           [''[INFO] (1/10) Page 1'', ''[INFO] (2/10) Page 2'', ''[INFO] (3/10) Page 3'',
            ''[INFO] (4/10) Page 4'', ''[INFO] (5/10) Page 5'', ''[INFO] (6/10) Page 6'',
            ''[INFO] (7/10) Page 7'', ''[INFO] (8/10) Page 8'', ''[INFO] (9/10) Page 9'',
            ''[INFO] (10/10) Page 10'']
   \<and> page_lines (trace (snd (pdf_to_word sample_env ''/tmp/in.pdf'' ''/tmp/out/result.docx''
        (init sample_world)))) =
     page_lines (trace (snd (pdf_to_word silent_env ''/tmp/other.pdf'' ''other.docx''
        (init (''/tmp/other.pdf'' # sample_world)))))"
proof -
  have a: "Converter_new sample_env sample_world ''/tmp/in.pdf'' = (Inr ''/tmp/in.pdf'', sample_world)"
    by (simp add: sample_env_def sample_world_def)
  have b: "Converter_new silent_env (''/tmp/other.pdf'' # sample_world) ''/tmp/other.pdf'' =
       (Inr ''/tmp/other.pdf'', ''/tmp/other.pdf'' # sample_world)"
    by (simp add: silent_env_def sample_env_def)
  from fixed_page_progress [OF a b, of "''/tmp/out/result.docx''" "''other.docx''"]
  have t1: "page_lines (trace (snd (pdf_to_word sample_env ''/tmp/in.pdf'' ''/tmp/out/result.docx''
        (init sample_world)))) =
           [''[INFO] (1/10) Page 1'', ''[INFO] (2/10) Page 2'', ''[INFO] (3/10) Page 3'',
            ''[INFO] (4/10) Page 4'', ''[INFO] (5/10) Page 5'', ''[INFO] (6/10) Page 6'',
            ''[INFO] (7/10) Page 7'', ''[INFO] (8/10) Page 8'', ''[INFO] (9/10) Page 9'',
            ''[INFO] (10/10) Page 10'']"
    and t2: "page_lines (trace (snd (pdf_to_word sample_env ''/tmp/in.pdf'' ''/tmp/out/result.docx''
        (init sample_world)))) =
     page_lines (trace (snd (pdf_to_word silent_env ''/tmp/other.pdf'' ''other.docx''
        (init (''/tmp/other.pdf'' # sample_world)))))"
    by blast+
  show ?thesis
    using a b t1 t2 by (intro conjI)
qed

section \<open>Properties of the three scripts\<close>

text \<open>
  C8: for every argument vector whose length is not 3 (the program name and two
  arguments), each of the three scripts prints its usage line and exits with code 1; the
  usage line is the only event of the run, so no file is read, created or renamed and no
  directory is made.
\<close>

theorem wrong_argument_count:
  assumes "length argv \<noteq> 3"
  shows "main env argv (init w) =
           (SystemExit 1,
            \<lparr>world = w,
             trace = [Stderr ''[ERROR] Usage: python3 pdf_to_word.py <input_pdf_path> <output_docx_path>'']\<rparr>)
         \<and> pdf_to_word_script env argv (init w) =
           (SystemExit 1,
            \<lparr>world = w,
             trace = [Stdout ''Usage: python pdf_to_word.py <pdf_path> <docx_path>'']\<rparr>)
         \<and> word_to_pdf_script env argv (init w) =
           (SystemExit 1,
            \<lparr>world = w,
             trace = [Stderr ''Usage: python word_to_pdf.py <input_path> <output_path>'']\<rparr>)"
  using assms
  by (simp add: main_def pdf_to_word_script_def word_to_pdf_script_def world_defs)

theorem wrong_argument_count_witness:
  "length [''word_to_pdf.py'', ''/tmp/report.docx''] \<noteq> 3
   \<and> main sample_env [''word_to_pdf.py'', ''/tmp/report.docx''] (init sample_world) =
           (SystemExit 1,
            \<lparr>world = sample_world,
             trace = [Stderr ''[ERROR] Usage: python3 pdf_to_word.py <input_pdf_path> <output_docx_path>'']\<rparr>)
   \<and> pdf_to_word_script sample_env [''word_to_pdf.py'', ''/tmp/report.docx''] (init sample_world) =
           (SystemExit 1,
            \<lparr>world = sample_world,
             trace = [Stdout ''Usage: python pdf_to_word.py <pdf_path> <docx_path>'']\<rparr>)
   \<and> word_to_pdf_script sample_env [''word_to_pdf.py'', ''/tmp/report.docx''] (init sample_world) =
           (SystemExit 1,
            \<lparr>world = sample_world,
             trace = [Stderr ''Usage: python word_to_pdf.py <input_path> <output_path>'']\<rparr>)"
proof -
  have h: "length [''word_to_pdf.py'', ''/tmp/report.docx''] \<noteq> 3" by simp
  show ?thesis
    using wrong_argument_count [OF h, of sample_env sample_world] by simp
qed

end
